theory Spec2Isabelle
  imports Main "HOL-Library.Word"
begin

unbundle bit_operations_syntax

section \<open>Error numbers\<close>

text \<open>
  The values of \<^verbatim>\<open>errno.h\<close> on Linux. The code returns them negated.
\<close>

definition ENOENT :: int where "ENOENT = 2"
definition EIO :: int where "EIO = 5"
definition ENOMEM :: int where "ENOMEM = 12"
definition EINVAL :: int where "EINVAL = 22"
definition EBADR :: int where "EBADR = 53"
definition EISCONN :: int where "EISCONN = 106"
definition ENOTCONN :: int where "ENOTCONN = 107"

section \<open>The phonebook folder navigation (plugins/phonebook-tracker.c)\<close>

subsection \<open>GLib string routines used by \<^verbatim>\<open>phonebook_set_folder\<close>\<close>

text \<open>
  C strings are \<^typ>\<open>string\<close>; a \<^verbatim>\<open>char *\<close> that may be \<^verbatim>\<open>NULL\<close> is a
  \<^typ>\<open>string option\<close>. The routines below are GLib's (POSIX build, directory
  separator \<^verbatim>\<open>/\<close>), written after their library behaviour.
\<close>

definition is_dir_separator :: "char \<Rightarrow> bool" where
  "is_dir_separator c = (c = CHR ''/'')"

text \<open>\<^verbatim>\<open>g_strcmp0(a, b) == 0\<close>: equal strings, or both \<^verbatim>\<open>NULL\<close>.\<close>

definition g_strcmp0_eq :: "string option \<Rightarrow> string option \<Rightarrow> bool" where
  "g_strcmp0_eq a b = (a = b)"

text \<open>
  \<^verbatim>\<open>g_path_get_basename\<close>: \<^verbatim>\<open>"."\<close> for the empty string, \<^verbatim>\<open>"/"\<close> for a string of
  separators only, otherwise the last component without trailing separators.
\<close>

definition g_path_get_basename :: "string \<Rightarrow> string" where
  "g_path_get_basename file_name =
     (if file_name = [] then ''.''
      else let stripped = dropWhile is_dir_separator (rev file_name)
           in if stripped = [] then ''/''
              else rev (takeWhile (\<lambda>c. \<not> is_dir_separator c) stripped))"

text \<open>
  \<^verbatim>\<open>g_strrstr(haystack, needle)\<close>: the offset of the last occurrence of the needle,
  \<^const>\<open>None\<close> for \<^verbatim>\<open>NULL\<close>. The scan starts at the last offset where the needle
  fits and walks down to offset 0.
\<close>

fun strrstr_scan :: "string \<Rightarrow> string \<Rightarrow> nat \<Rightarrow> nat option" where
  "strrstr_scan haystack needle 0 =
     (if take (length needle) haystack = needle then Some 0 else None)"
| "strrstr_scan haystack needle (Suc p) =
     (if take (length needle) (drop (Suc p) haystack) = needle then Some (Suc p)
      else strrstr_scan haystack needle p)"

definition g_strrstr :: "string \<Rightarrow> string \<Rightarrow> nat option" where
  "g_strrstr haystack needle =
     (if needle = [] then Some 0
      else if length haystack < length needle then None
      else strrstr_scan haystack needle (length haystack - length needle))"

text \<open>\<^verbatim>\<open>g_strndup(str, n)\<close> for a non-\<^verbatim>\<open>NULL\<close> string and \<open>0 \<le> n\<close>.\<close>

definition g_strndup :: "string \<Rightarrow> nat \<Rightarrow> string" where
  "g_strndup str n = take n str"

text \<open>
  \<^verbatim>\<open>g_build_filename\<close> is \<^verbatim>\<open>g_build_path\<close> with separator \<^verbatim>\<open>/\<close>: empty elements are
  skipped, the leading separators of the first non-empty element and the trailing
  separators of the last one are kept, the separators between elements are
  replaced by exactly one. An element made of separators only, alone, is returned
  as it is. The state of GLib's loop:
\<close>

record build_state =
  result :: string
  is_first :: bool
  have_leading :: bool
  single_element :: "string option"
  last_trailing :: "string option"

definition build_path_step :: "build_state \<Rightarrow> string \<Rightarrow> build_state" where
  "build_path_step st element =
     (if element = [] then st
      else
        let lead = takeWhile is_dir_separator element;
            start = dropWhile is_dir_separator element;
            body = rev (dropWhile is_dir_separator (rev start));
            trailing = (if body = [] then element
                        else drop (length lead + length body) element);
            st1 = st\<lparr>last_trailing := Some trailing\<rparr>;
            st2 = (if \<not> have_leading st1
                   then st1\<lparr>single_element :=
                               (if body = [] then Some element else single_element st1),
                            result := result st1 @ lead,
                            have_leading := True\<rparr>
                   else st1\<lparr>single_element := None\<rparr>)
        in if body = [] then st2
           else st2\<lparr>result := result st2 @ (if is_first st2 then [] else ''/'') @ body,
                    is_first := False\<rparr>)"

definition build_path_finish :: "build_state \<Rightarrow> string" where
  "build_path_finish st =
     (case single_element st of
        Some e \<Rightarrow> e
      | None \<Rightarrow> (case last_trailing st of
                   Some t \<Rightarrow> result st @ t
                 | None \<Rightarrow> result st))"

text \<open>
  The variable arguments end at the first \<^verbatim>\<open>NULL\<close>: the elements after it are
  not read.
\<close>

definition g_build_filename :: "string option list \<Rightarrow> string" where
  "g_build_filename args =
     build_path_finish
       (foldl build_path_step
          \<lparr>result = [], is_first = True, have_leading = False,
           single_element = None, last_trailing = None\<rparr>
          (map the (takeWhile (\<lambda>a. a \<noteq> None) args)))"

subsection \<open>The folder whitelist\<close>

definition folder_is_valid :: "string option \<Rightarrow> bool" where
  "folder_is_valid folder =
     (case folder of
        None \<Rightarrow> False
      | Some f \<Rightarrow>
          if f = ''/'' then True
          else if f = ''/telecom'' then True
          else if f = ''/telecom/pb'' then True
          else if f = ''/telecom/ich'' then True
          else if f = ''/telecom/och'' then True
          else if f = ''/telecom/mch'' then True
          else if f = ''/telecom/cch'' then True
          else False)"

subsection \<open>\<^verbatim>\<open>phonebook_set_folder\<close>\<close>

text \<open>
  The part of \<^verbatim>\<open>phonebook_set_folder\<close> before the label \<^verbatim>\<open>done\<close>: the
  \<^verbatim>\<open>switch\<close> on the flags, giving the pair \<^verbatim>\<open>(path, ret)\<close>. The outer
  \<^const>\<open>None\<close> stands for undefined behaviour of the C code in the branch that
  goes up one level: the current folder is \<^verbatim>\<open>NULL\<close>, or its base name does not
  occur in it (\<^verbatim>\<open>g_strrstr\<close> gives \<^verbatim>\<open>NULL\<close> and the pointer difference has no
  meaning), or occurs at offset 0 (\<^verbatim>\<open>len\<close> is \<open>-1\<close> and \<^verbatim>\<open>g_strndup\<close> is asked
  for \<^verbatim>\<open>SIZE_MAX\<close> bytes).
\<close>

definition set_folder_switch ::
  "string option \<Rightarrow> string option \<Rightarrow> 8 word \<Rightarrow> (string option \<times> int) option" where
  "set_folder_switch current_folder new_folder flags =
     (let root = g_strcmp0_eq (Some ''/'') current_folder;
          child = (case new_folder of None \<Rightarrow> False | Some n \<Rightarrow> length n \<noteq> 0)
      in if flags = 0x02 then
           (if \<not> child then Some (Some ''/'', 0)
            else Some (Some (g_build_filename [current_folder, new_folder, None]), 0))
         else if flags = 0x03 then
           (if root then Some (Some ''/'', 0)
            else case current_folder of
              None \<Rightarrow> None
            | Some cur \<Rightarrow>
                let tmp1 = g_path_get_basename cur in
                (case g_strrstr cur tmp1 of
                   None \<Rightarrow> None
                 | Some tmp2 \<Rightarrow>
                     if tmp2 = 0 then None
                     else
                       let len = tmp2 - 1;
                           base = (if len = 0 then ''/'' else g_strndup cur len)
                       in if \<not> child then Some (Some base, 0)
                          else Some (Some (g_build_filename [Some base, new_folder, None]), 0)))
         else Some (None, - EBADR))"

text \<open>The code from the label \<^verbatim>\<open>done\<close> on; the result is \<^verbatim>\<open>(path, *err)\<close>.\<close>

definition set_folder_done :: "string option \<times> int \<Rightarrow> string option \<times> int" where
  "set_folder_done pr =
     (let path = fst pr;
          ret = (if path \<noteq> None \<and> \<not> folder_is_valid path then - ENOENT else snd pr)
      in if ret < 0 then (None, ret) else (path, ret))"

definition phonebook_set_folder ::
  "string option \<Rightarrow> string option \<Rightarrow> 8 word \<Rightarrow> (string option \<times> int) option" where
  "phonebook_set_folder current_folder new_folder flags =
     map_option set_folder_done (set_folder_switch current_folder new_folder flags)"

section \<open>The session core (client/session.c)\<close>

subsection \<open>Data\<close>

text \<open>
  Pointers to objects of other libraries (D-Bus connections and pending calls,
  the OBEX engine, I/O channels, SDP sessions, function pointers and user data)
  are handles of type \<^typ>\<open>nat\<close>; a pointer that may be \<^verbatim>\<open>NULL\<close> is an option.
  A Bluetooth address \<^verbatim>\<open>bdaddr_t\<close> is its six bytes.
\<close>

type_synonym bdaddr = "8 word list"
type_synonym sptr = nat

definition BDADDR_ANY :: bdaddr where
  "BDADDR_ANY = [0, 0, 0, 0, 0, 0]"

text \<open>\<^verbatim>\<open>bacmp\<close> is \<^verbatim>\<open>memcmp\<close> on the six bytes; only its being zero is used.\<close>

definition bacmp :: "bdaddr \<Rightarrow> bdaddr \<Rightarrow> int" where
  "bacmp a b = (if a = b then 0 else 1)"

record gerror =
  domain :: string
  code :: int
  message :: string

definition OBEX_IO_ERROR :: string where
  "OBEX_IO_ERROR = ''obex-io-error-quark''"

record obc_driver =
  service :: "string option"
  uuid :: string
  target :: "8 word list option"
  probe :: bool
  remove :: bool

record obc_agent =
  agent_name :: string
  agent_path :: string

text \<open>
  A transfer is an object of \<^verbatim>\<open>transfer.c\<close>; the session reads its path and
  its size through \<^verbatim>\<open>obc_transfer_get_path\<close> and \<^verbatim>\<open>obc_transfer_get_size\<close>.
\<close>

record obc_transfer =
  transfer_id :: nat
  transfer_path :: "string option"
  transfer_size :: int

record session_callback =
  func :: nat
  data :: nat

record callback_data =
  cb_session :: sptr
  cb_sdp :: "nat option"
  cb_func :: nat
  cb_data :: nat

text \<open>
  A pending request holds its \<^verbatim>\<open>DBusPendingCall\<close>; \<open>completed\<close> is what
  \<^verbatim>\<open>dbus_pending_call_get_completed\<close> answers for it.
\<close>

record pending_req =
  call :: nat
  completed :: bool

record obc_session =
  refcount :: "32 word"
  src :: bdaddr
  dst :: bdaddr
  channel :: "8 word"
  driver :: "obc_driver option"
  path :: "string option"
  conn :: "nat option"
  conn_system :: "nat option"
  msg :: "nat option"
  obex :: "nat option"
  io :: "nat option"
  agent :: "obc_agent option"
  callback :: "session_callback option"
  owner :: "string option"
  watch :: nat
  pending :: "obc_transfer list"
  pending_calls :: "pending_req list"
  priv :: "nat option"
  adapter :: "string option"

text \<open>The functions whose address the code hands to a library as a continuation.\<close>

datatype notify = Manager_reply | Adapter_reply

datatype prepare = Session_prepare_get | Session_prepare_put

datatype io_func = Rfcomm_callback | Service_callback | Process_callback

text \<open>
  Every call that leaves the session core is recorded, in order, in a trace.
  The hooks of other modules (the caller's completion function, the driver's
  \<^verbatim>\<open>remove\<close>) are recorded when they are called; what they do is theirs.
\<close>

datatype event =
    G_dbus_send_message "nat option" string "string option" string string
  | Dbus_connection_send_with_reply "nat option" string "string option" string string
      "string option" notify callback_data nat
  | Dbus_pending_call_cancel nat
  | Dbus_pending_call_unref nat
  | Obc_agent_release obc_agent
  | Obc_agent_free obc_agent
  | G_dbus_remove_watch nat
  | G_dbus_add_disconnect_watch string
  | G_obex_unref nat
  | G_io_channel_shutdown nat
  | G_io_channel_unref nat
  | Driver_remove sptr
  | G_dbus_unregister_interface "string option"
  | Dbus_connection_unref nat
  | G_free_session sptr
  | G_free_callback callback_data
  | Callback_func nat sptr "gerror option" nat
  | Bt_io_connect bdaddr bdaddr "8 word" callback_data
  | G_obex_connect nat "8 word list option" callback_data
  | Sdp_connect bdaddr bdaddr
  | Sdp_close nat
  | Sdp_set_notify nat callback_data
  | Sdp_service_search_attr_async nat string
  | G_io_add_watch nat io_func callback_data
  | G_idle_add_connection_complete callback_data
  | G_idle_add_request_proceed prepare sptr obc_transfer
  | Obc_agent_request obc_agent string prepare sptr obc_transfer
  | Obc_agent_notify_complete obc_agent string
  | Obc_agent_notify_error obc_agent string string
  | Obc_agent_notify_progress obc_agent string int
  | Obc_transfer_register obc_transfer
  | Obc_transfer_unregister obc_transfer
  | Obc_transfer_set_buffer obc_transfer
  | Obc_transfer_set_file obc_transfer

text \<open>
  The state of the process: the sessions allocated on the heap, the registry
  \<^verbatim>\<open>sessions\<close> (a \<^verbatim>\<open>GSList\<close> of session pointers, newest first) and the trace.
  \<open>fault\<close> is set when a pointer to a session that is not allocated is
  dereferenced, which is undefined in C.
\<close>

record world =
  heap :: "sptr \<Rightarrow> obc_session option"
  sessions :: "sptr list"
  trace :: "event list"
  fault :: bool

definition emit :: "event list \<Rightarrow> world \<Rightarrow> world" where
  "emit es w = w\<lparr>trace := trace w @ es\<rparr>"

definition put_session :: "sptr \<Rightarrow> obc_session \<Rightarrow> world \<Rightarrow> world" where
  "put_session p s w = w\<lparr>heap := (heap w)(p := Some s)\<rparr>"

definition BT_BUS_NAME :: string where "BT_BUS_NAME = ''org.bluez''"
definition BT_PATH :: string where "BT_PATH = ''/''"
definition BT_ADAPTER_IFACE :: string where "BT_ADAPTER_IFACE = ''org.bluez.Adapter''"
definition BT_MANAGER_IFACE :: string where "BT_MANAGER_IFACE = ''org.bluez.Manager''"

subsection \<open>Reference counting and teardown\<close>

text \<open>\<^verbatim>\<open>g_atomic_int_inc\<close> on a \<^verbatim>\<open>gint\<close>: the 32-bit count wraps.\<close>

definition obc_session_ref :: "world \<Rightarrow> sptr \<Rightarrow> world" where
  "obc_session_ref w p =
     (case heap w p of
        None \<Rightarrow> w\<lparr>fault := True\<rparr>
      | Some s \<Rightarrow> put_session p (s\<lparr>refcount := refcount s + 1\<rparr>) w)"

definition session_unregistered_events :: "sptr \<Rightarrow> obc_session \<Rightarrow> event list" where
  "session_unregistered_events p s =
     (case driver s of
        None \<Rightarrow> []
      | Some d \<Rightarrow> if remove d then [Driver_remove p] else [])
     @ [G_dbus_unregister_interface (path s)]"

definition session_unregistered :: "world \<Rightarrow> sptr \<Rightarrow> world" where
  "session_unregistered w p =
     (case heap w p of
        None \<Rightarrow> w\<lparr>fault := True\<rparr>
      | Some s \<Rightarrow>
          put_session p (s\<lparr>path := None\<rparr>) (emit (session_unregistered_events p s) w))"

fun find_session_request :: "pending_req list \<Rightarrow> nat \<Rightarrow> pending_req option" where
  "find_session_request [] c = None"
| "find_session_request (req # l) c =
     (if call req = c then Some req else find_session_request l c)"

definition pending_req_finalize :: "pending_req \<Rightarrow> event list" where
  "pending_req_finalize req =
     (if \<not> completed req then [Dbus_pending_call_cancel (call req)] else [])
     @ [Dbus_pending_call_unref (call req)]"

text \<open>
  The calls \<^verbatim>\<open>session_free\<close> makes, in the order of the code: every pending
  request is finalised, the agent released and freed, the owner watch removed,
  the OBEX engine released, the I/O channel shut down and released, the
  interface unregistered, the two bus connections released, and at the end the
  memory of the session given back.
\<close>

definition session_free_events :: "sptr \<Rightarrow> obc_session \<Rightarrow> event list" where
  "session_free_events p s =
     concat (map pending_req_finalize (pending_calls s))
     @ (case agent s of None \<Rightarrow> [] | Some a \<Rightarrow> [Obc_agent_release a, Obc_agent_free a])
     @ (if watch s \<noteq> 0 then [G_dbus_remove_watch (watch s)] else [])
     @ (case obex s of None \<Rightarrow> [] | Some ob \<Rightarrow> [G_obex_unref ob])
     @ (case io s of None \<Rightarrow> [] | Some ch \<Rightarrow> [G_io_channel_shutdown ch, G_io_channel_unref ch])
     @ (if path s \<noteq> None then session_unregistered_events p s else [])
     @ (case conn s of None \<Rightarrow> [] | Some c \<Rightarrow> [Dbus_connection_unref c])
     @ (case conn_system s of None \<Rightarrow> [] | Some c \<Rightarrow> [Dbus_connection_unref c])
     @ [G_free_session p]"

text \<open>
  \<^verbatim>\<open>session_free\<close> also takes the session out of the registry
  (\<^verbatim>\<open>g_slist_remove\<close> removes the first occurrence) before its memory is freed.
\<close>

definition session_free :: "world \<Rightarrow> sptr \<Rightarrow> world" where
  "session_free w p =
     (case heap w p of
        None \<Rightarrow> w\<lparr>fault := True\<rparr>
      | Some s \<Rightarrow>
          (emit (session_free_events p s) w)
            \<lparr>heap := (heap w)(p := None), sessions := remove1 p (sessions w)\<rparr>)"

text \<open>
  What the D-Bus library answers to one \<^verbatim>\<open>send_method_call\<close>: whether the
  message could be allocated, whether its arguments could be appended, and the
  pending call \<^verbatim>\<open>dbus_connection_send_with_reply\<close> gives (\<^const>\<open>None\<close> when it
  fails).
\<close>

record dbus_env =
  msg_alloc :: bool
  args_appended :: bool
  reply_call :: "nat option"

text \<open>
  \<^verbatim>\<open>send_method_call\<close>: with no notify function the message is sent without
  waiting for a reply and the result is \<^verbatim>\<open>NULL\<close>; otherwise the result is the
  new pending request, or \<^verbatim>\<open>NULL\<close> on failure. The string argument is the one
  \<^verbatim>\<open>FindAdapter\<close> carries.
\<close>

definition send_method_call ::
  "dbus_env \<Rightarrow> nat option \<Rightarrow> string \<Rightarrow> string option \<Rightarrow> string \<Rightarrow> string \<Rightarrow>
   (notify \<times> callback_data) option \<Rightarrow> string option \<Rightarrow> event list \<times> pending_req option" where
  "send_method_call env connection dest pth interface method cb arg =
     (if \<not> msg_alloc env then ([], None)
      else if \<not> args_appended env then ([], None)
      else case cb of
        None \<Rightarrow> ([G_dbus_send_message connection dest pth interface method], None)
      | Some (notify_fn, user_data) \<Rightarrow>
          (case reply_call env of
             None \<Rightarrow> ([], None)
           | Some c \<Rightarrow>
               ([Dbus_connection_send_with_reply connection dest pth interface method
                   arg notify_fn user_data c],
                Some \<lparr>call = c, completed = False\<rparr>)))"

text \<open>
  \<^verbatim>\<open>obc_session_unref\<close>: \<^verbatim>\<open>g_atomic_int_dec_and_test\<close> decrements the count and
  tells whether it is now zero; only then \<^verbatim>\<open>ReleaseSession\<close> is sent to the
  adapter and the session freed.
\<close>

definition obc_session_unref :: "dbus_env \<Rightarrow> world \<Rightarrow> sptr \<Rightarrow> world" where
  "obc_session_unref env w p =
     (case heap w p of
        None \<Rightarrow> w\<lparr>fault := True\<rparr>
      | Some s \<Rightarrow>
          let s' = s\<lparr>refcount := refcount s - 1\<rparr>;
              w1 = put_session p s' w
          in if refcount s' \<noteq> 0 then w1
             else session_free
                    (emit (fst (send_method_call env (conn_system s') BT_BUS_NAME (adapter s')
                                  BT_ADAPTER_IFACE ''ReleaseSession'' None None)) w1) p)"

text \<open>
  A sequence of acquire and release calls on one session. Following the count
  from its first value, \<open>after_zero\<close> gives the calls that come after the release
  that brings it to zero, and \<^const>\<open>None\<close> when no release does; \<open>count_after\<close>
  is the count the calls add up to.
\<close>

datatype refop = Acquire | Release

fun run_refops :: "dbus_env \<Rightarrow> world \<Rightarrow> sptr \<Rightarrow> refop list \<Rightarrow> world" where
  "run_refops env w p [] = w"
| "run_refops env w p (Acquire # ops) = run_refops env (obc_session_ref w p) p ops"
| "run_refops env w p (Release # ops) = run_refops env (obc_session_unref env w p) p ops"

fun after_zero :: "32 word \<Rightarrow> refop list \<Rightarrow> refop list option" where
  "after_zero c [] = None"
| "after_zero c (Acquire # ops) = after_zero (c + 1) ops"
| "after_zero c (Release # ops) = (if c - 1 = 0 then Some ops else after_zero (c - 1) ops)"

fun count_after :: "32 word \<Rightarrow> refop list \<Rightarrow> 32 word" where
  "count_after c [] = c"
| "count_after c (Acquire # ops) = count_after (c + 1) ops"
| "count_after c (Release # ops) = count_after (c - 1) ops"

subsection \<open>Transport bring-up: OBEX connect and RFCOMM\<close>

definition G_OBEX_RSP_SUCCESS :: "8 word" where
  "G_OBEX_RSP_SUCCESS = 0x20"

definition hex_digit :: "nat \<Rightarrow> char" where
  "hex_digit n = ''0123456789abcdef'' ! (n mod 16)"

text \<open>The \<^verbatim>\<open>printf\<close> conversion \<^verbatim>\<open>%02x\<close> of one byte.\<close>

definition hex02 :: "8 word \<Rightarrow> string" where
  "hex02 b = [hex_digit (unat b div 16), hex_digit (unat b mod 16)]"

text \<open>\<^verbatim>\<open>callback->func(callback->session, err, callback->data)\<close>.\<close>

definition callback_func :: "callback_data \<Rightarrow> gerror option \<Rightarrow> event" where
  "callback_func cb err = Callback_func (cb_func cb) (cb_session cb) err (cb_data cb)"

text \<open>
  \<^verbatim>\<open>connect_cb\<close>, the completion of the OBEX CONNECT request: \<open>err\<close> is the
  transport error, if any, and \<open>rsp_code\<close> the operation code of the response.
\<close>

definition connect_cb ::
  "dbus_env \<Rightarrow> world \<Rightarrow> gerror option \<Rightarrow> 8 word \<Rightarrow> callback_data \<Rightarrow> world" where
  "connect_cb env w err rsp_code cb =
     (let gerr = (case err of
                    Some e \<Rightarrow> Some e
                  | None \<Rightarrow>
                      if rsp_code \<noteq> G_OBEX_RSP_SUCCESS
                      then Some \<lparr>domain = OBEX_IO_ERROR, code = - EIO,
                                 message = ''OBEX Connect failed with 0x'' @ hex02 rsp_code\<rparr>
                      else None);
          w1 = emit [callback_func cb gerr] w;
          w2 = obc_session_unref env w1 (cb_session cb)
      in emit [G_free_callback cb] w2)"

text \<open>
  \<^verbatim>\<open>rfcomm_connect\<close>: \<open>bt_io\<close> is the channel \<^verbatim>\<open>bt_io_connect\<close> returns
  (\<^const>\<open>None\<close> when it fails). The attempt is recorded either way.
\<close>

definition rfcomm_connect ::
  "nat option \<Rightarrow> bdaddr \<Rightarrow> bdaddr \<Rightarrow> 8 word \<Rightarrow> callback_data \<Rightarrow> event list \<times> nat option" where
  "rfcomm_connect bt_io s d ch cb = ([Bt_io_connect s d ch cb], bt_io)"

text \<open>The label \<^verbatim>\<open>done\<close> of \<^verbatim>\<open>rfcomm_callback\<close>.\<close>

definition rfcomm_callback_done ::
  "dbus_env \<Rightarrow> world \<Rightarrow> gerror option \<Rightarrow> callback_data \<Rightarrow> world" where
  "rfcomm_callback_done env w err cb =
     emit [G_free_callback cb]
       (obc_session_unref env (emit [callback_func cb err] w) (cb_session cb))"

text \<open>
  \<^verbatim>\<open>rfcomm_callback\<close>, the completion of the RFCOMM connect: \<open>err\<close> is its error,
  \<open>obex_new\<close> the engine \<^verbatim>\<open>g_obex_new\<close> returns and \<open>connect_err\<close> the error
  \<^verbatim>\<open>g_obex_connect\<close> sets. When the CONNECT request could be issued, the engine is
  stored and the session is put at the front of the registry.
\<close>

definition rfcomm_callback ::
  "dbus_env \<Rightarrow> nat option \<Rightarrow> gerror option \<Rightarrow> world \<Rightarrow> gerror option \<Rightarrow> callback_data \<Rightarrow> world" where
  "rfcomm_callback env obex_new connect_err w err cb =
     (case heap w (cb_session cb) of
        None \<Rightarrow> w\<lparr>fault := True\<rparr>
      | Some s \<Rightarrow>
          if err \<noteq> None then rfcomm_callback_done env w err cb
          else case obex_new of
            None \<Rightarrow> rfcomm_callback_done env w err cb
          | Some ob \<Rightarrow>
              (case driver s of
                 None \<Rightarrow> w\<lparr>fault := True\<rparr>
               | Some d \<Rightarrow>
                   let w1 = put_session (cb_session cb) (s\<lparr>io := None\<rparr>)
                              (emit ((case io s of None \<Rightarrow> [] | Some ch \<Rightarrow> [G_io_channel_unref ch])
                                     @ [G_obex_connect ob (target d) cb]) w)
                   in if connect_err \<noteq> None
                      then rfcomm_callback_done env (emit [G_obex_unref ob] w1) connect_err cb
                      else (put_session (cb_session cb) (s\<lparr>io := None, obex := Some ob\<rparr>) w1)
                             \<lparr>sessions := cb_session cb # sessions w1\<rparr>))"

subsection \<open>Service discovery\<close>

definition SDP_SVC_SEARCH_ATTR_RSP :: "8 word" where
  "SDP_SVC_SEARCH_ATTR_RSP = 0x07"

definition G_IO_ERR :: "32 word" where "G_IO_ERR = 8"
definition G_IO_NVAL :: "32 word" where "G_IO_NVAL = 32"

text \<open>
  What the SDP library tells about one record of the response: \<open>proto_port\<close> is
  \<^const>\<open>None\<close> when \<^verbatim>\<open>sdp_get_access_protos\<close> fails, and otherwise the value of
  \<^verbatim>\<open>sdp_get_proto_port(protos, RFCOMM_UUID)\<close>, which is 0 when the record has no
  RFCOMM descriptor.
\<close>

record sdp_record =
  proto_port :: "int option"

text \<open>
  The \<^verbatim>\<open>do ... while\<close> loop of \<^verbatim>\<open>search_callback\<close>. The list holds what the
  successive calls of \<^verbatim>\<open>sdp_extract_pdu\<close> give: the record (or \<^verbatim>\<open>NULL\<close>) and
  \<^verbatim>\<open>recsize\<close>; past its end there is no record. \<open>scanned\<close> and \<open>bytesleft\<close> are
  \<^verbatim>\<open>unsigned int\<close>, \<open>sz\<close> (the \<^verbatim>\<open>size\<close> of the code) is a \<^verbatim>\<open>size_t\<close> of 64 bits. The result is the local
  \<^verbatim>\<open>channel\<close>, a \<^verbatim>\<open>uint8_t\<close> that starts at 0 and takes the port of the first
  record whose port is positive.
\<close>

fun scan_records ::
  "(sdp_record option \<times> int) list \<Rightarrow> 32 word \<Rightarrow> 32 word \<Rightarrow> 64 word \<Rightarrow> 8 word" where
  "scan_records [] scanned bytesleft sz = 0"
| "scan_records ((None, recsize) # rest) scanned bytesleft sz = 0"
| "scan_records ((Some r, recsize) # rest) scanned bytesleft sz =
     (if recsize = 0 then 0
      else
        let ch = (case proto_port r of None \<Rightarrow> - 1 | Some port \<Rightarrow> port)
        in if ch > 0 then word_of_int ch
           else
             let scanned' = scanned + word_of_int recsize;
                 bytesleft' = bytesleft - word_of_int recsize
             in if ucast scanned' < sz \<and> bytesleft' > 0
                then scan_records rest scanned' bytesleft' sz
                else 0)"

text \<open>The label \<^verbatim>\<open>failed\<close> of \<^verbatim>\<open>search_callback\<close> and of \<^verbatim>\<open>service_callback\<close>.\<close>

definition service_record_error :: gerror where
  "service_record_error =
     \<lparr>domain = OBEX_IO_ERROR, code = - EIO, message = ''Unable to find service record''\<rparr>"

definition discovery_failed :: "dbus_env \<Rightarrow> world \<Rightarrow> callback_data \<Rightarrow> world" where
  "discovery_failed env w cb =
     (case heap w (cb_session cb) of
        None \<Rightarrow> w\<lparr>fault := True\<rparr>
      | Some s \<Rightarrow>
          let w1 = put_session (cb_session cb) (s\<lparr>io := None\<rparr>)
                     (emit ((case io s of
                               None \<Rightarrow> []
                             | Some ch \<Rightarrow> [G_io_channel_shutdown ch, G_io_channel_unref ch])
                            @ [callback_func cb (Some service_record_error)]) w)
          in emit [G_free_callback cb] (obc_session_unref env w1 (cb_session cb)))"

text \<open>
  \<^verbatim>\<open>search_callback\<close>, the completion of the SDP search. \<open>scanned0\<close> and \<open>seqlen\<close>
  are what \<^verbatim>\<open>sdp_extract_seqtype\<close> gives for the response, \<open>records\<close> what
  \<^verbatim>\<open>sdp_extract_pdu\<close> gives, \<open>bt_io\<close> what \<^verbatim>\<open>bt_io_connect\<close> gives.
\<close>

definition search_callback ::
  "dbus_env \<Rightarrow> nat option \<Rightarrow> 32 word \<Rightarrow> int \<Rightarrow> (sdp_record option \<times> int) list \<Rightarrow>
   world \<Rightarrow> 8 word \<Rightarrow> 16 word \<Rightarrow> 64 word \<Rightarrow> callback_data \<Rightarrow> world" where
  "search_callback env bt_io scanned0 seqlen records w pdu_type status sz cb =
     (case heap w (cb_session cb) of
        None \<Rightarrow> w\<lparr>fault := True\<rparr>
      | Some s \<Rightarrow>
          if status \<noteq> 0 \<or> pdu_type \<noteq> SDP_SVC_SEARCH_ATTR_RSP then discovery_failed env w cb
          else if scanned0 = 0 \<or> seqlen = 0 then discovery_failed env w cb
          else
            let ch = scan_records records scanned0 (ucast sz - scanned0) sz
            in if ch = 0 then discovery_failed env w cb
               else
                 let (es, new_io) = rfcomm_connect bt_io (src s) (dst s) ch cb;
                     w1 = put_session (cb_session cb) (s\<lparr>channel := ch, io := new_io\<rparr>)
                            (emit ((case io s of None \<Rightarrow> [] | Some c \<Rightarrow> [G_io_channel_unref c])
                                   @ es) w)
                 in if new_io \<noteq> None
                    then emit (case cb_sdp cb of None \<Rightarrow> [] | Some sd \<Rightarrow> [Sdp_close sd]) w1
                    else discovery_failed env w1 cb)"

text \<open>
  \<^verbatim>\<open>service_callback\<close>, called when the SDP socket is writable. \<open>notify_ret\<close> is
  the result of \<^verbatim>\<open>sdp_set_notify\<close>, \<open>uuid_ret\<close> of \<^verbatim>\<open>bt_string2uuid\<close> on the
  driver's UUID string and \<open>search_ret\<close> of \<^verbatim>\<open>sdp_service_search_attr_async\<close>.
  \<open>io_ch\<close> is the channel the function is called with.
\<close>

definition service_callback ::
  "dbus_env \<Rightarrow> int \<Rightarrow> int \<Rightarrow> int \<Rightarrow> world \<Rightarrow> nat \<Rightarrow> 32 word \<Rightarrow> callback_data \<Rightarrow> world" where
  "service_callback env notify_ret uuid_ret search_ret w io_ch cond cb =
     (case heap w (cb_session cb) of
        None \<Rightarrow> w\<lparr>fault := True\<rparr>
      | Some s \<Rightarrow>
          if cond AND (G_IO_NVAL OR G_IO_ERR) \<noteq> 0 then discovery_failed env w cb
          else case cb_sdp cb of
            None \<Rightarrow> w\<lparr>fault := True\<rparr>
          | Some sd \<Rightarrow>
              let w1 = emit [Sdp_set_notify sd cb] w
              in if notify_ret < 0 then discovery_failed env w1 cb
                 else case driver s of
                   None \<Rightarrow> w1\<lparr>fault := True\<rparr>
                 | Some d \<Rightarrow>
                     if uuid_ret < 0 then discovery_failed env w1 cb
                     else
                       let w2 = emit [Sdp_service_search_attr_async sd (uuid d)] w1
                       in if search_ret < 0 then discovery_failed env w2 cb
                          else emit [G_io_add_watch io_ch Process_callback cb] w2)"

text \<open>
  \<^verbatim>\<open>service_connect\<close>: \<open>sdp_conn\<close> is what \<^verbatim>\<open>sdp_connect\<close> gives, \<open>sdp_io\<close> what
  \<^verbatim>\<open>g_io_channel_unix_new\<close> gives for its socket.
\<close>

definition service_connect ::
  "nat option \<Rightarrow> nat option \<Rightarrow> world \<Rightarrow> bdaddr \<Rightarrow> bdaddr \<Rightarrow> callback_data \<Rightarrow> world \<times> nat option" where
  "service_connect sdp_conn sdp_io w s d cb =
     (let w1 = emit [Sdp_connect s d] w
      in case sdp_conn of
        None \<Rightarrow> (w1, None)
      | Some sd \<Rightarrow>
          (case sdp_io of
             None \<Rightarrow> (emit [Sdp_close sd] w1, None)
           | Some ch \<Rightarrow>
               (case heap w1 (cb_session cb) of
                  None \<Rightarrow> (w1\<lparr>fault := True\<rparr>, None)
                | Some ses \<Rightarrow>
                    (put_session (cb_session cb) (ses\<lparr>io := Some ch\<rparr>)
                       (emit [G_io_add_watch ch Service_callback cb] w1),
                     Some sd))))"

definition connection_complete :: "dbus_env \<Rightarrow> world \<Rightarrow> callback_data \<Rightarrow> world" where
  "connection_complete env w cb =
     emit [G_free_callback cb]
       (obc_session_unref env (emit [callback_func cb None] w) (cb_session cb))"

subsection \<open>Session lookup and creation\<close>

text \<open>
  \<^verbatim>\<open>obc_session_set_owner\<close> for a session that is not \<^verbatim>\<open>NULL\<close>: \<open>new_watch\<close> is
  the identifier \<^verbatim>\<open>g_dbus_add_disconnect_watch\<close> returns, 0 on failure.
\<close>

definition obc_session_set_owner :: "nat \<Rightarrow> world \<Rightarrow> sptr \<Rightarrow> string \<Rightarrow> world \<times> int" where
  "obc_session_set_owner new_watch w p name =
     (case heap w p of
        None \<Rightarrow> (w\<lparr>fault := True\<rparr>, - EINVAL)
      | Some s \<Rightarrow>
          let w1 = emit ((if watch s \<noteq> 0 then [G_dbus_remove_watch (watch s)] else [])
                         @ [G_dbus_add_disconnect_watch name]) w
          in if new_watch = 0 then (put_session p (s\<lparr>watch := new_watch\<rparr>) w1, - EINVAL)
             else (put_session p (s\<lparr>watch := new_watch, owner := Some name\<rparr>) w1, 0))"

text \<open>
  \<^verbatim>\<open>session_find\<close> walks the registry from its head. \<open>str2ba\<close> is the library
  routine that reads an address from its text. The outer \<^const>\<open>None\<close> stands for
  undefined behaviour: a registry entry that is not allocated, or a matching
  entry without driver, is dereferenced.
\<close>

fun session_find_from ::
  "(string \<Rightarrow> bdaddr) \<Rightarrow> (sptr \<Rightarrow> obc_session option) \<Rightarrow> sptr list \<Rightarrow>
   string option \<Rightarrow> string \<Rightarrow> string option \<Rightarrow> 8 word \<Rightarrow> string option \<Rightarrow> sptr option option" where
  "session_find_from str2ba h [] source destination srv chan own = Some None"
| "session_find_from str2ba h (p # l) source destination srv chan own =
     (case h p of
        None \<Rightarrow> None
      | Some s \<Rightarrow>
          if source \<noteq> None \<and> bacmp (src s) (str2ba (the source)) \<noteq> 0
          then session_find_from str2ba h l source destination srv chan own
          else if bacmp (dst s) (str2ba destination) \<noteq> 0
          then session_find_from str2ba h l source destination srv chan own
          else case driver s of
            None \<Rightarrow> None
          | Some d \<Rightarrow>
              if \<not> g_strcmp0_eq srv (service d)
              then session_find_from str2ba h l source destination srv chan own
              else if chan \<noteq> 0 \<and> channel s \<noteq> chan
              then session_find_from str2ba h l source destination srv chan own
              else if \<not> g_strcmp0_eq own (owner s)
              then session_find_from str2ba h l source destination srv chan own
              else Some (Some p))"

definition session_find ::
  "(string \<Rightarrow> bdaddr) \<Rightarrow> world \<Rightarrow> string option \<Rightarrow> string \<Rightarrow> string option \<Rightarrow> 8 word \<Rightarrow>
   string option \<Rightarrow> sptr option option" where
  "session_find str2ba w source destination srv chan own =
     session_find_from str2ba (heap w) (sessions w) source destination srv chan own"


text \<open>
  \<^verbatim>\<open>session_connect\<close>: an existing OBEX connection only schedules the completion;
  a known channel is connected to; otherwise service discovery is started. The
  result holds the callback data (its \<^verbatim>\<open>sdp\<close> field may have been set) and
  \<^verbatim>\<open>err\<close>.
\<close>

definition session_connect ::
  "nat option \<Rightarrow> nat option \<Rightarrow> nat option \<Rightarrow> world \<Rightarrow> sptr \<Rightarrow> callback_data \<Rightarrow>
   world \<times> callback_data \<times> int" where
  "session_connect bt_io sdp_conn sdp_io w p cb =
     (case heap w p of
        None \<Rightarrow> (w\<lparr>fault := True\<rparr>, cb, - EINVAL)
      | Some s \<Rightarrow>
          if obex s \<noteq> None then (emit [G_idle_add_connection_complete cb] w, cb, 0)
          else if channel s > 0 then
            (let (es, new_io) = rfcomm_connect bt_io (src s) (dst s) (channel s) cb
             in (put_session p (s\<lparr>io := new_io\<rparr>) (emit es w), cb,
                 if new_io = None then - EINVAL else 0))
          else
            (let (w1, sd) = service_connect sdp_conn sdp_io w (src s) (dst s) cb
             in (w1, cb\<lparr>cb_sdp := sd\<rparr>, if sd = None then - ENOMEM else 0)))"

text \<open>A reply of the bus: an error, or a return whose argument may be an object path.\<close>

datatype dbus_reply = Dbus_error string string | Dbus_return "string option"

text \<open>
  The first lines of \<^verbatim>\<open>adapter_reply\<close> and \<^verbatim>\<open>manager_reply\<close>: the request of
  the pending call is looked up, taken out of \<^verbatim>\<open>pending_calls\<close> and finalised.
  The notify function runs when the call has completed. Without such a request
  \<^verbatim>\<open>pending_req_finalize\<close> dereferences \<^verbatim>\<open>NULL\<close>.
\<close>

definition take_pending_request :: "world \<Rightarrow> sptr \<Rightarrow> nat \<Rightarrow> world" where
  "take_pending_request w p c =
     (case heap w p of
        None \<Rightarrow> w\<lparr>fault := True\<rparr>
      | Some s \<Rightarrow>
          (case find_session_request (pending_calls s) c of
             None \<Rightarrow> w\<lparr>fault := True\<rparr>
           | Some req \<Rightarrow>
               emit (pending_req_finalize (req\<lparr>completed := True\<rparr>))
                 (put_session p (s\<lparr>pending_calls := remove1 req (pending_calls s)\<rparr>) w)))"

text \<open>The label \<^verbatim>\<open>failed\<close> of both reply handlers.\<close>

definition reply_failed :: "dbus_env \<Rightarrow> world \<Rightarrow> callback_data \<Rightarrow> world" where
  "reply_failed env w cb =
     emit [G_free_callback cb] (obc_session_unref env w (cb_session cb))"

text \<open>
  \<^verbatim>\<open>adapter_reply\<close>, the reply to \<^verbatim>\<open>RequestSession\<close>. \<open>env\<close> answers the
  \<^verbatim>\<open>ReleaseSession\<close> that a last release sends.
\<close>

definition adapter_reply ::
  "dbus_env \<Rightarrow> nat option \<Rightarrow> nat option \<Rightarrow> nat option \<Rightarrow> world \<Rightarrow> nat \<Rightarrow> dbus_reply \<Rightarrow>
   callback_data \<Rightarrow> world" where
  "adapter_reply env bt_io sdp_conn sdp_io w c reply cb =
     (let w1 = take_pending_request w (cb_session cb) c
      in case reply of
        Dbus_error name text \<Rightarrow> reply_failed env w1 cb
      | Dbus_return arg \<Rightarrow>
          (case session_connect bt_io sdp_conn sdp_io w1 (cb_session cb) cb of
             (w2, cb', err) \<Rightarrow> if err < 0 then reply_failed env w2 cb' else w2))"

text \<open>
  \<^verbatim>\<open>manager_reply\<close>, the reply to \<^verbatim>\<open>FindAdapter\<close> or \<^verbatim>\<open>DefaultAdapter\<close>.
  \<open>req_env\<close> answers the \<^verbatim>\<open>RequestSession\<close> call.
\<close>

definition manager_reply ::
  "dbus_env \<Rightarrow> dbus_env \<Rightarrow> world \<Rightarrow> nat \<Rightarrow> dbus_reply \<Rightarrow> callback_data \<Rightarrow> world" where
  "manager_reply env req_env w c reply cb =
     (let w1 = take_pending_request w (cb_session cb) c
      in case reply of
        Dbus_error name text \<Rightarrow> reply_failed env w1 cb
      | Dbus_return None \<Rightarrow> reply_failed env w1 cb
      | Dbus_return (Some adapter_path) \<Rightarrow>
          (case heap w1 (cb_session cb) of
             None \<Rightarrow> w1\<lparr>fault := True\<rparr>
           | Some s \<Rightarrow>
               let s1 = s\<lparr>adapter := Some adapter_path\<rparr>;
                   (es, req) = send_method_call req_env (conn_system s1) BT_BUS_NAME
                                 (Some adapter_path) BT_ADAPTER_IFACE ''RequestSession''
                                 (Some (Adapter_reply, cb)) None;
                   w2 = emit es (put_session (cb_session cb) s1 w1)
               in case req of
                 None \<Rightarrow> reply_failed env w2 cb
               | Some r \<Rightarrow>
                   put_session (cb_session cb)
                     (s1\<lparr>pending_calls := r # pending_calls s1\<rparr>) w2))"

text \<open>
  What the surroundings answer to one \<^verbatim>\<open>obc_session_create\<close>: the driver
  \<^verbatim>\<open>obc_driver_find\<close> gives, the address \<^verbatim>\<open>g_try_malloc0\<close> gives for the session,
  the two bus connections, whether the callback data could be allocated, the
  answers of the bus to the adapter lookup and to a \<^verbatim>\<open>ReleaseSession\<close>, and the
  owner watch.
\<close>

record create_env =
  driver_found :: "obc_driver option"
  session_alloc :: "sptr option"
  bus_session :: "nat option"
  bus_system :: "nat option"
  callback_alloc :: bool
  lookup_env :: dbus_env
  release_env :: dbus_env
  owner_watch :: nat

text \<open>The session \<^verbatim>\<open>g_try_malloc0\<close> gives: every field zero.\<close>

definition zero_session :: obc_session where
  "zero_session =
     \<lparr>refcount = 0, src = BDADDR_ANY, dst = BDADDR_ANY, channel = 0, driver = None,
      path = None, conn = None, conn_system = None, msg = None, obex = None, io = None,
      agent = None, callback = None, owner = None, watch = 0, pending = [],
      pending_calls = [], priv = None, adapter = None\<rparr>"

text \<open>\<^verbatim>\<open>obc_session_create\<close> from the label \<^verbatim>\<open>proceed\<close> on.\<close>

definition session_create_proceed ::
  "create_env \<Rightarrow> world \<Rightarrow> sptr \<Rightarrow> string option \<Rightarrow> string option \<Rightarrow> nat \<Rightarrow> nat \<Rightarrow>
   world \<times> sptr option" where
  "session_create_proceed cenv w p source own function user_data =
     (if \<not> callback_alloc cenv then (obc_session_unref (release_env cenv) w p, None)
      else
        let cb = \<lparr>cb_session = p, cb_sdp = None, cb_func = function, cb_data = user_data\<rparr>;
            w1 = obc_session_ref w p
        in case heap w1 p of
          None \<Rightarrow> (w1\<lparr>fault := True\<rparr>, None)
        | Some s \<Rightarrow>
            let (es, req) =
                  (if source \<noteq> None
                   then send_method_call (lookup_env cenv) (conn_system s) BT_BUS_NAME
                          (Some BT_PATH) BT_MANAGER_IFACE ''FindAdapter''
                          (Some (Manager_reply, cb)) source
                   else send_method_call (lookup_env cenv) (conn_system s) BT_BUS_NAME
                          (Some BT_PATH) BT_MANAGER_IFACE ''DefaultAdapter''
                          (Some (Manager_reply, cb)) None);
                w2 = emit es w1
            in case req of
              None \<Rightarrow>
                (emit [G_free_callback cb] (obc_session_unref (release_env cenv) w2 p), None)
            | Some r \<Rightarrow>
                let w3 = put_session p (s\<lparr>pending_calls := r # pending_calls s\<rparr>) w2
                in case own of
                  None \<Rightarrow> (w3, Some p)
                | Some name \<Rightarrow>
                    (fst (obc_session_set_owner (owner_watch cenv) w3 p name), Some p))"

text \<open>
  \<^verbatim>\<open>obc_session_create\<close>. The result is the world and the session returned
  (\<^const>\<open>None\<close> for \<^verbatim>\<open>NULL\<close>).
\<close>

definition obc_session_create ::
  "(string \<Rightarrow> bdaddr) \<Rightarrow> create_env \<Rightarrow> world \<Rightarrow> string option \<Rightarrow> string option \<Rightarrow>
   string option \<Rightarrow> 8 word \<Rightarrow> string option \<Rightarrow> nat \<Rightarrow> nat \<Rightarrow> world \<times> sptr option" where
  "obc_session_create str2ba cenv w source destination srv chan own function user_data =
     (case destination of
        None \<Rightarrow> (w, None)
      | Some dest \<Rightarrow>
          (case session_find str2ba w source dest srv chan own of
             None \<Rightarrow> (w\<lparr>fault := True\<rparr>, None)
           | Some (Some p) \<Rightarrow>
               session_create_proceed cenv (obc_session_ref w p) p source own function user_data
           | Some None \<Rightarrow>
               (case driver_found cenv of
                  None \<Rightarrow> (w, None)
                | Some d \<Rightarrow>
                    (case session_alloc cenv of
                       None \<Rightarrow> (w, None)
                     | Some p \<Rightarrow>
                         let s0 = zero_session\<lparr>refcount := 1, channel := chan\<rparr>
                         in case bus_session cenv of
                           None \<Rightarrow> (session_free (put_session p s0 w) p, None)
                         | Some c \<Rightarrow>
                             let s1 = s0\<lparr>conn := Some c\<rparr>
                             in case bus_system cenv of
                               None \<Rightarrow> (session_free (put_session p s1 w) p, None)
                             | Some cs \<Rightarrow>
                                 let s2 = s1\<lparr>conn_system := Some cs,
                                             src := (case source of
                                                       None \<Rightarrow> BDADDR_ANY
                                                     | Some a \<Rightarrow> str2ba a),
                                             dst := str2ba dest,
                                             driver := Some d\<rparr>
                                 in session_create_proceed cenv (put_session p s2 w) p
                                      source own function user_data))))"

subsection \<open>Transfers\<close>

definition obc_session_add_transfer :: "world \<Rightarrow> sptr \<Rightarrow> obc_transfer \<Rightarrow> world" where
  "obc_session_add_transfer w p t =
     (case heap w p of
        None \<Rightarrow> w\<lparr>fault := True\<rparr>
      | Some s \<Rightarrow> put_session p (s\<lparr>pending := pending s @ [t]\<rparr>) w)"

definition obc_session_remove_transfer :: "world \<Rightarrow> sptr \<Rightarrow> obc_transfer \<Rightarrow> world" where
  "obc_session_remove_transfer w p t =
     (case heap w p of
        None \<Rightarrow> w\<lparr>fault := True\<rparr>
      | Some s \<Rightarrow> put_session p (s\<lparr>pending := remove1 t (pending s)\<rparr>) w)"

text \<open>
  Modelled from the spec: \<^verbatim>\<open>obc_transfer_register\<close> and
  \<^verbatim>\<open>obc_transfer_unregister\<close> belong to \<^verbatim>\<open>transfer.c\<close>, which is absent. A
  transfer that is registered is appended to the pending queue of its session
  (through \<^verbatim>\<open>obc_session_add_transfer\<close>), and one that is unregistered is
  removed from it (through \<^verbatim>\<open>obc_session_remove_transfer\<close>). \<open>new_transfer\<close> is
  the transfer the registration creates, \<^const>\<open>None\<close> when it fails. The arguments
  of the session operations that only describe the transfer (type, file name,
  target name, application parameters) go to the registration and are left out.
\<close>

definition obc_transfer_register ::
  "obc_transfer option \<Rightarrow> world \<Rightarrow> sptr \<Rightarrow> world \<times> obc_transfer option" where
  "obc_transfer_register new_transfer w p =
     (case new_transfer of
        None \<Rightarrow> (w, None)
      | Some t \<Rightarrow> (obc_session_add_transfer (emit [Obc_transfer_register t] w) p t, Some t))"

definition obc_transfer_unregister :: "world \<Rightarrow> sptr \<Rightarrow> obc_transfer \<Rightarrow> world" where
  "obc_transfer_unregister w p t =
     obc_session_remove_transfer (emit [Obc_transfer_unregister t] w) p t"

text \<open>
  \<^verbatim>\<open>session_request\<close> starts the admission cycle of a transfer: without agent or
  without transfer path the continuation \<open>cb\<close> is scheduled with
  \<^verbatim>\<open>g_idle_add\<close>, otherwise the agent is asked. \<open>agent_ret\<close> is what
  \<^verbatim>\<open>obc_agent_request\<close> returns.
\<close>

definition session_request ::
  "int \<Rightarrow> world \<Rightarrow> sptr \<Rightarrow> prepare \<Rightarrow> obc_transfer \<Rightarrow> world \<times> int" where
  "session_request agent_ret w p cb t =
     (case heap w p of
        None \<Rightarrow> (w\<lparr>fault := True\<rparr>, 0)
      | Some s \<Rightarrow>
          (case agent s of
             None \<Rightarrow> (emit [G_idle_add_request_proceed cb p t] w, 0)
           | Some a \<Rightarrow>
               (case transfer_path t of
                  None \<Rightarrow> (emit [G_idle_add_request_proceed cb p t] w, 0)
                | Some pth \<Rightarrow>
                    let w1 = emit [Obc_agent_request a pth cb p t] w
                    in if agent_ret < 0 then (w1, agent_ret) else (w1, 0))))"

text \<open>
  \<^verbatim>\<open>session_terminate_transfer\<close>: with a session callback set, the callback is
  called and nothing else is done; without one the transfer is unregistered and,
  if the queue is not empty then, the admission cycle of its head is started
  with \<^verbatim>\<open>session_prepare_put\<close>.
\<close>

definition session_terminate_transfer ::
  "dbus_env \<Rightarrow> int \<Rightarrow> world \<Rightarrow> sptr \<Rightarrow> obc_transfer \<Rightarrow> gerror option \<Rightarrow> world" where
  "session_terminate_transfer env agent_ret w p t gerr =
     (case heap w p of
        None \<Rightarrow> w\<lparr>fault := True\<rparr>
      | Some s \<Rightarrow>
          (case callback s of
             Some c \<Rightarrow> emit [Callback_func (func c) p gerr (data c)] w
           | None \<Rightarrow>
               let w1 = obc_session_ref w p;
                   w2 = obc_transfer_unregister w1 p t;
                   w3 = (case heap w2 p of
                           None \<Rightarrow> w2\<lparr>fault := True\<rparr>
                         | Some s2 \<Rightarrow>
                             (case pending s2 of
                                [] \<Rightarrow> w2
                              | next_transfer # rest \<Rightarrow>
                                  fst (session_request agent_ret w2 p Session_prepare_put
                                         next_transfer)))
               in obc_session_unref env w3 p))"

text \<open>The notification an agent gets when there is an agent and the transfer has a path.\<close>

definition agent_notify ::
  "world \<Rightarrow> sptr \<Rightarrow> obc_transfer \<Rightarrow> (obc_agent \<Rightarrow> string \<Rightarrow> event) \<Rightarrow> world" where
  "agent_notify w p t ev =
     (case heap w p of
        None \<Rightarrow> w\<lparr>fault := True\<rparr>
      | Some s \<Rightarrow>
          (case agent s of
             None \<Rightarrow> w
           | Some a \<Rightarrow>
               (case transfer_path t of
                  None \<Rightarrow> w
                | Some pth \<Rightarrow> emit [ev a pth] w)))"

definition session_notify_complete ::
  "dbus_env \<Rightarrow> int \<Rightarrow> world \<Rightarrow> sptr \<Rightarrow> obc_transfer \<Rightarrow> world" where
  "session_notify_complete env agent_ret w p t =
     session_terminate_transfer env agent_ret
       (agent_notify w p t Obc_agent_notify_complete) p t None"

definition session_notify_error ::
  "dbus_env \<Rightarrow> int \<Rightarrow> world \<Rightarrow> sptr \<Rightarrow> obc_transfer \<Rightarrow> gerror \<Rightarrow> world" where
  "session_notify_error env agent_ret w p t err =
     session_terminate_transfer env agent_ret
       (agent_notify w p t (\<lambda>a pth. Obc_agent_notify_error a pth (message err))) p t (Some err)"

text \<open>
  \<^verbatim>\<open>session_notify_progress\<close>: \<open>transferred\<close> and the size of the transfer are
  \<^verbatim>\<open>gint64\<close> values, compared as such.
\<close>

definition session_notify_progress ::
  "dbus_env \<Rightarrow> int \<Rightarrow> world \<Rightarrow> sptr \<Rightarrow> obc_transfer \<Rightarrow> int \<Rightarrow> world" where
  "session_notify_progress env agent_ret w p t transferred =
     (let w1 = agent_notify w p t (\<lambda>a pth. Obc_agent_notify_progress a pth transferred)
      in if transferred = transfer_size t then session_notify_complete env agent_ret w1 p t
         else w1)"

definition transfer_progress ::
  "dbus_env \<Rightarrow> int \<Rightarrow> world \<Rightarrow> obc_transfer \<Rightarrow> int \<Rightarrow> gerror option \<Rightarrow> sptr \<Rightarrow> world" where
  "transfer_progress env agent_ret w t transferred err p =
     (case err of
        Some e \<Rightarrow> session_notify_error env agent_ret w p t e
      | None \<Rightarrow> session_notify_progress env agent_ret w p t transferred)"

subsection \<open>The operations of a session\<close>

text \<open>
  \<open>fn\<close> is the pair of \<^verbatim>\<open>func\<close> and \<^verbatim>\<open>user_data\<close>, \<^const>\<open>None\<close> when \<^verbatim>\<open>func\<close>
  is \<^verbatim>\<open>NULL\<close>: only a function that is given replaces the session callback.
\<close>

definition set_session_callback :: "world \<Rightarrow> sptr \<Rightarrow> (nat \<times> nat) option \<Rightarrow> world" where
  "set_session_callback w p fn =
     (case fn of
        None \<Rightarrow> w
      | Some (f, d) \<Rightarrow>
          (case heap w p of
             None \<Rightarrow> w\<lparr>fault := True\<rparr>
           | Some s \<Rightarrow> put_session p (s\<lparr>callback := Some \<lparr>func = f, data = d\<rparr>\<rparr>) w))"

definition obc_session_get ::
  "obc_transfer option \<Rightarrow> int \<Rightarrow> world \<Rightarrow> sptr \<Rightarrow> (nat \<times> nat) option \<Rightarrow> world \<times> int" where
  "obc_session_get new_transfer agent_ret w p fn =
     (case heap w p of
        None \<Rightarrow> (w\<lparr>fault := True\<rparr>, 0)
      | Some s \<Rightarrow>
          if obex s = None then (w, - ENOTCONN)
          else case obc_transfer_register new_transfer w p of
            (w1, None) \<Rightarrow> (w1, - EIO)
          | (w1, Some t) \<Rightarrow>
              (case session_request agent_ret (set_session_callback w1 p fn) p
                      Session_prepare_get t of
                 (w2, err) \<Rightarrow> if err < 0 then (w2, err) else (w2, 0)))"

text \<open>\<open>set_file_ret\<close> is what \<^verbatim>\<open>obc_transfer_set_file\<close> returns.\<close>

definition obc_session_send ::
  "obc_transfer option \<Rightarrow> int \<Rightarrow> int \<Rightarrow> world \<Rightarrow> sptr \<Rightarrow> world \<times> int" where
  "obc_session_send new_transfer set_file_ret agent_ret w p =
     (case heap w p of
        None \<Rightarrow> (w\<lparr>fault := True\<rparr>, 0)
      | Some s \<Rightarrow>
          if obex s = None then (w, - ENOTCONN)
          else case obc_transfer_register new_transfer w p of
            (w1, None) \<Rightarrow> (w1, - EINVAL)
          | (w1, Some t) \<Rightarrow>
              let w2 = emit [Obc_transfer_set_file t] w1
              in if set_file_ret < 0 then (obc_transfer_unregister w2 p t, set_file_ret)
                 else case heap w2 p of
                   None \<Rightarrow> (w2\<lparr>fault := True\<rparr>, 0)
                 | Some s2 \<Rightarrow>
                     (case pending s2 of
                        [] \<Rightarrow> (w2\<lparr>fault := True\<rparr>, 0)
                      | first # rest \<Rightarrow>
                          if t \<noteq> first then (w2, 0)
                          else case session_request agent_ret w2 p Session_prepare_put t of
                            (w3, err) \<Rightarrow>
                              if err < 0 then (obc_transfer_unregister w3 p t, err)
                              else (w3, 0)))"

definition obc_session_pull ::
  "obc_transfer option \<Rightarrow> int \<Rightarrow> world \<Rightarrow> sptr \<Rightarrow> (nat \<times> nat) option \<Rightarrow> world \<times> int" where
  "obc_session_pull new_transfer agent_ret w p fn =
     (case heap w p of
        None \<Rightarrow> (w\<lparr>fault := True\<rparr>, 0)
      | Some s \<Rightarrow>
          if obex s = None then (w, - ENOTCONN)
          else case obc_transfer_register new_transfer w p of
            (w1, None) \<Rightarrow> (w1, - EIO)
          | (w1, Some t) \<Rightarrow>
              (case session_request agent_ret (set_session_callback w1 p fn) p
                      Session_prepare_get t of
                 (w2, err) \<Rightarrow>
                   if err = 0 then (w2, 0) else (obc_transfer_unregister w2 p t, err)))"

text \<open>\<open>buf\<close> tells whether the buffer argument is not \<^verbatim>\<open>NULL\<close>.\<close>

definition obc_session_put ::
  "obc_transfer option \<Rightarrow> int \<Rightarrow> world \<Rightarrow> sptr \<Rightarrow> bool \<Rightarrow> (nat \<times> nat) option \<Rightarrow> world \<times> int" where
  "obc_session_put new_transfer agent_ret w p buf fn =
     (case heap w p of
        None \<Rightarrow> (w\<lparr>fault := True\<rparr>, 0)
      | Some s \<Rightarrow>
          if obex s = None then (w, - ENOTCONN)
          else if pending s \<noteq> [] then (w, - EISCONN)
          else case obc_transfer_register new_transfer (set_session_callback w p fn) p of
            (w1, None) \<Rightarrow> (w1, - EIO)
          | (w1, Some t) \<Rightarrow>
              let w2 = (if buf then emit [Obc_transfer_set_buffer t] w1 else w1)
              in case session_request agent_ret w2 p Session_prepare_put t of
                (w3, err) \<Rightarrow> if err < 0 then (w3, err) else (w3, 0))"

text \<open>
  What holds of every session the operations above can produce: a session with a
  queued transfer has an OBEX connection. \<^verbatim>\<open>session->obex\<close> is set once, by
  \<^verbatim>\<open>rfcomm_callback\<close>, and never cleared, and a transfer is queued only after
  the test of \<^verbatim>\<open>session->obex\<close>.
\<close>

definition queue_connected :: "obc_session \<Rightarrow> bool" where
  "queue_connected s = (pending s = [] \<or> obex s \<noteq> None)"

abbreviation queue_inv :: "world \<Rightarrow> bool" where
  "queue_inv w \<equiv> (\<forall>q t. heap w q = Some t \<longrightarrow> queue_connected t)"

subsection \<open>Reading a trace\<close>

definition is_discovery :: "event \<Rightarrow> bool" where
  "is_discovery e = (case e of Sdp_connect a b \<Rightarrow> True | _ \<Rightarrow> False)"

definition is_transport_connect :: "event \<Rightarrow> bool" where
  "is_transport_connect e = (case e of Bt_io_connect a b ch cb \<Rightarrow> True | _ \<Rightarrow> False)"

definition is_callback :: "event \<Rightarrow> bool" where
  "is_callback e = (case e of Callback_func f p err d \<Rightarrow> True | _ \<Rightarrow> False)"

text \<open>
  What a notification sends: the agent hears of a transfer only when the session
  has an agent and the transfer has a path.
\<close>

definition agent_events ::
  "obc_session \<Rightarrow> obc_transfer \<Rightarrow> (obc_agent \<Rightarrow> string \<Rightarrow> event) \<Rightarrow> event list" where
  "agent_events s t ev =
     (case agent s of
        None \<Rightarrow> []
      | Some a \<Rightarrow> (case transfer_path t of None \<Rightarrow> [] | Some pth \<Rightarrow> [ev a pth]))"

text \<open>
  The start of the admission cycle of a transfer: the request to the agent, or,
  without agent or path, the deferred call of the continuation.
\<close>

definition admission_events ::
  "obc_session \<Rightarrow> sptr \<Rightarrow> prepare \<Rightarrow> obc_transfer \<Rightarrow> event list" where
  "admission_events s p cb t =
     (case agent s of
        None \<Rightarrow> [G_idle_add_request_proceed cb p t]
      | Some a \<Rightarrow>
          (case transfer_path t of
             None \<Rightarrow> [G_idle_add_request_proceed cb p t]
           | Some pth \<Rightarrow> [Obc_agent_request a pth cb p t]))"

text \<open>
  A result of \<^verbatim>\<open>sdp_extract_pdu\<close> that is a record with an RFCOMM channel: the
  protocol descriptors could be read and give a positive port.
\<close>

definition has_rfcomm_channel :: "sdp_record option \<times> int \<Rightarrow> bool" where
  "has_rfcomm_channel x =
     (case fst x of
        None \<Rightarrow> False
      | Some r \<Rightarrow> (case proto_port r of None \<Rightarrow> False | Some port \<Rightarrow> port > 0))"

subsection \<open>Sample states\<close>

text \<open>
  A session in bring-up at address 7, held by its caller and by the callback
  data of the connect request, with the adapter lookup (pending call 10) under
  way, in a process with an empty registry.
\<close>

definition sample_driver :: obc_driver where
  "sample_driver =
     \<lparr>service = Some ''MAP'', uuid = ''00001134-0000-1000-8000-00805f9b34fb'',
      target = Some [0xbb, 0x58, 0x2b, 0x40], probe = True, remove = True\<rparr>"

definition sample_session :: obc_session where
  "sample_session =
     \<lparr>refcount = 2, src = BDADDR_ANY, dst = [1, 2, 3, 4, 5, 6], channel = 0,
      driver = Some sample_driver, path = None, conn = Some 1, conn_system = Some 2,
      msg = None, obex = None, io = None, agent = None, callback = None, owner = None,
      watch = 0, pending = [], pending_calls = [\<lparr>call = 10, completed = False\<rparr>],
      priv = None, adapter = None\<rparr>"

definition sample_callback :: callback_data where
  "sample_callback = \<lparr>cb_session = 7, cb_sdp = None, cb_func = 100, cb_data = 200\<rparr>"

definition world_with :: "obc_session \<Rightarrow> world" where
  "world_with s =
     \<lparr>heap = (\<lambda>p. if p = 7 then Some s else None), sessions = [], trace = [], fault = False\<rparr>"

definition sample_world :: world where
  "sample_world = world_with sample_session"

definition ok_env :: dbus_env where
  "ok_env = \<lparr>msg_alloc = True, args_appended = True, reply_call = Some 11\<rparr>"

definition sample_transfer :: obc_transfer where
  "sample_transfer =
     \<lparr>transfer_id = 1, transfer_path = Some ''/org/openobex/transfer1'', transfer_size = 4096\<rparr>"

definition sample_transfer2 :: obc_transfer where
  "sample_transfer2 =
     \<lparr>transfer_id = 2, transfer_path = Some ''/org/openobex/transfer2'', transfer_size = 512\<rparr>"

definition sample_agent :: obc_agent where
  "sample_agent = \<lparr>agent_name = '':1.42'', agent_path = ''/org/openobex/agent''\<rparr>"

text \<open>
  A connected session with two queued transfers: with an agent and no session
  callback, and with a session callback and no agent.
\<close>

definition queued_session_agent :: obc_session where
  "queued_session_agent =
     sample_session\<lparr>channel := 5, obex := Some 3, agent := Some sample_agent,
                    pending := [sample_transfer, sample_transfer2], pending_calls := []\<rparr>"

definition queued_session_callback :: obc_session where
  "queued_session_callback =
     sample_session\<lparr>channel := 5, obex := Some 3,
                    callback := Some \<lparr>func = 100, data = 200\<rparr>,
                    pending := [sample_transfer, sample_transfer2], pending_calls := []\<rparr>"





text \<open>
  The sample session when the adapter has been resolved and its admission is
  requested (pending call 11), and when its RFCOMM connect to channel 5 is under
  way on channel object 6.
\<close>

definition admission_session :: obc_session where
  "admission_session =
     sample_session\<lparr>adapter := Some ''/org/bluez/hci0'',
                    pending_calls := [\<lparr>call = 11, completed = False\<rparr>]\<rparr>"


text \<open>
  A registered, connected session with every resource that \<^verbatim>\<open>session_free\<close>
  gives back: two pending calls (one of them completed), an agent, an owner
  watch, the OBEX engine, an I/O channel, a registered path and both bus
  connections. \<open>no_message_env\<close> is a bus library that cannot build a message.
\<close>

definition equipped_session :: obc_session where
  "equipped_session =
     \<lparr>refcount = 2, src = BDADDR_ANY, dst = [1, 2, 3, 4, 5, 6], channel = 5,
      driver = Some sample_driver, path = Some ''/org/openobex/session0'', conn = Some 1,
      conn_system = Some 2, msg = None, obex = Some 3, io = Some 6,
      agent = Some sample_agent, callback = None, owner = Some '':1.10'', watch = 4,
      pending = [],
      pending_calls = [\<lparr>call = 12, completed = True\<rparr>, \<lparr>call = 13, completed = False\<rparr>],
      priv = None, adapter = Some ''/org/bluez/hci0''\<rparr>"

definition equipped_world :: world where
  "equipped_world = (world_with equipped_session)\<lparr>sessions := [7]\<rparr>"

definition no_message_env :: dbus_env where
  "no_message_env = \<lparr>msg_alloc = False, args_appended = True, reply_call = None\<rparr>"


section \<open>Properties of the folder navigation\<close>

lemma folder_is_valid_iff:
  "folder_is_valid (Some p) \<longleftrightarrow>
     p \<in> {''/'', ''/telecom'', ''/telecom/pb'', ''/telecom/ich'', ''/telecom/och'',
          ''/telecom/mch'', ''/telecom/cch''}"
  unfolding folder_is_valid_def by simp

lemma set_folder_switch_ret:
  "set_folder_switch cur new flags = Some (Some p, r) \<Longrightarrow> r = 0"
  unfolding set_folder_switch_def Let_def
  by (auto split: if_splits option.splits)

text \<open>
  Claim C9. Entering \<^verbatim>\<open>telecom\<close> from the root gives \<^verbatim>\<open>/telecom\<close>; going up from
  \<^verbatim>\<open>/telecom/pb\<close> with an empty new folder gives \<^verbatim>\<open>/telecom\<close>; and whenever the path
  computed by the switch is not one of the seven valid folders, the function returns
  \<^verbatim>\<open>NULL\<close> and the error \<^verbatim>\<open>-ENOENT\<close>.
\<close>

theorem phonebook_set_folder_spec:
  "phonebook_set_folder (Some ''/'') (Some ''telecom'') 0x02 = Some (Some ''/telecom'', 0)
   \<and> phonebook_set_folder (Some ''/telecom/pb'') (Some '''') 0x03 = Some (Some ''/telecom'', 0)
   \<and> (\<forall>cur new flags p r.
         set_folder_switch cur new flags = Some (Some p, r)
         \<and> p \<notin> {''/'', ''/telecom'', ''/telecom/pb'', ''/telecom/ich'', ''/telecom/och'',
                 ''/telecom/mch'', ''/telecom/cch''}
         \<longrightarrow> phonebook_set_folder cur new flags = Some (None, - ENOENT))"
proof (intro conjI allI impI)
  show "phonebook_set_folder (Some ''/'') (Some ''telecom'') 0x02 = Some (Some ''/telecom'', 0)"
    by code_simp
  show "phonebook_set_folder (Some ''/telecom/pb'') (Some '''') 0x03 = Some (Some ''/telecom'', 0)"
    by code_simp
next
  fix cur new flags p r
  assume a: "set_folder_switch cur new flags = Some (Some p, r)
         \<and> p \<notin> {''/'', ''/telecom'', ''/telecom/pb'', ''/telecom/ich'', ''/telecom/och'',
                 ''/telecom/mch'', ''/telecom/cch''}"
  then have "\<not> folder_is_valid (Some p)" using folder_is_valid_iff by blast
  with a show "phonebook_set_folder cur new flags = Some (None, - ENOENT)"
    by (simp add: phonebook_set_folder_def set_folder_done_def ENOENT_def)
qed

theorem phonebook_set_folder_spec_witness:
  "set_folder_switch (Some ''/telecom'') (Some ''x'') 0x02 = Some (Some ''/telecom/x'', 0)
   \<and> ''/telecom/x'' \<notin> {''/'', ''/telecom'', ''/telecom/pb'', ''/telecom/ich'', ''/telecom/och'',
                 ''/telecom/mch'', ''/telecom/cch''}
   \<and> phonebook_set_folder (Some ''/telecom'') (Some ''x'') 0x02 = Some (None, - ENOENT)"
proof -
  have h: "set_folder_switch (Some ''/telecom'') (Some ''x'') 0x02 = Some (Some ''/telecom/x'', 0)"
    by code_simp
  have n: "''/telecom/x'' \<notin> {''/'', ''/telecom'', ''/telecom/pb'', ''/telecom/ich'', ''/telecom/och'',
                 ''/telecom/mch'', ''/telecom/cch''}" by simp
  note u = phonebook_set_folder_spec [THEN conjunct2, THEN conjunct2, rule_format, OF conjI [OF h n]]
  show ?thesis by (intro conjI) (rule h, rule n, rule u)
qed

section \<open>Reference counting\<close>

lemma count_finalize_free:
  "count_list (concat (map pending_req_finalize rs)) (G_free_session p) = 0"
  by (induction rs) (simp_all add: pending_req_finalize_def)

lemma session_free_events_calls:
  "session_free_events p s =
     concat (map (\<lambda>r. (if \<not> completed r then [Dbus_pending_call_cancel (call r)] else [])
                        @ [Dbus_pending_call_unref (call r)]) (pending_calls s))
     @ (case agent s of None \<Rightarrow> [] | Some a \<Rightarrow> [Obc_agent_release a, Obc_agent_free a])
     @ (if watch s \<noteq> 0 then [G_dbus_remove_watch (watch s)] else [])
     @ (case obex s of None \<Rightarrow> [] | Some ob \<Rightarrow> [G_obex_unref ob])
     @ (case io s of None \<Rightarrow> [] | Some ch \<Rightarrow> [G_io_channel_shutdown ch, G_io_channel_unref ch])
     @ (if path s \<noteq> None
        then (case driver s of
                None \<Rightarrow> []
              | Some d \<Rightarrow> if remove d then [Driver_remove p] else [])
             @ [G_dbus_unregister_interface (path s)]
        else [])
     @ (case conn s of None \<Rightarrow> [] | Some c \<Rightarrow> [Dbus_connection_unref c])
     @ (case conn_system s of None \<Rightarrow> [] | Some c \<Rightarrow> [Dbus_connection_unref c])
     @ [G_free_session p]"
proof -
  have "pending_req_finalize
          = (\<lambda>r. (if \<not> completed r then [Dbus_pending_call_cancel (call r)] else [])
                        @ [Dbus_pending_call_unref (call r)])"
    by (rule ext) (simp add: pending_req_finalize_def)
  then show ?thesis
    unfolding session_free_events_def session_unregistered_events_def by simp
qed

lemma session_free_events_refcount:
  "session_free_events p (s\<lparr>refcount := c\<rparr>) = session_free_events p s"
  by (simp add: session_free_events_def session_unregistered_events_def)

lemma count_session_free_events:
  "count_list (session_free_events p s) (G_free_session p) = 1"
  by (simp add: session_free_events_def session_unregistered_events_def count_finalize_free
      split: option.splits)

lemma obc_session_ref_live:
  "heap w p = Some s \<Longrightarrow> obc_session_ref w p = put_session p (s\<lparr>refcount := refcount s + 1\<rparr>) w"
  by (simp add: obc_session_ref_def)

lemma obc_session_unref_live:
  assumes "heap w p = Some s"
  shows "obc_session_unref env w p =
     (if refcount s - 1 \<noteq> 0 then put_session p (s\<lparr>refcount := refcount s - 1\<rparr>) w
      else w\<lparr>trace := trace w
                        @ (if msg_alloc env \<and> args_appended env
                           then [G_dbus_send_message (conn_system s) ''org.bluez'' (adapter s)
                                   ''org.bluez.Adapter'' ''ReleaseSession'']
                           else [])
                        @ session_free_events p s,
             heap := (heap w)(p := None),
             sessions := remove1 p (sessions w)\<rparr>)"
  using assms
  by (simp add: obc_session_unref_def Let_def put_session_def emit_def session_free_def
      send_method_call_def session_free_events_refcount BT_BUS_NAME_def BT_ADAPTER_IFACE_def)

lemma run_refops_freed:
  "heap w p = None \<Longrightarrow>
     (\<forall>q. heap (run_refops env w p ops) q = heap w q)
     \<and> trace (run_refops env w p ops) = trace w
     \<and> sessions (run_refops env w p ops) = sessions w
     \<and> fault (run_refops env w p ops) = (fault w \<or> ops \<noteq> [])"
proof (induction ops arbitrary: w)
  case Nil
  then show ?case by simp
next
  case (Cons a ops)
  have h: "heap (w\<lparr>fault := True\<rparr>) p = None" using Cons.prems by simp
  from Cons.IH [OF h] Cons.prems show ?case
    by (cases a) (simp_all add: obc_session_ref_def obc_session_unref_def)
qed

lemma run_refops_live:
  "heap w p = Some s \<Longrightarrow>
    (case after_zero (refcount s) ops of
       None \<Rightarrow>
         heap (run_refops env w p ops) p
           = Some (s\<lparr>refcount := count_after (refcount s) ops\<rparr>)
         \<and> (\<forall>q. q \<noteq> p \<longrightarrow> heap (run_refops env w p ops) q = heap w q)
         \<and> trace (run_refops env w p ops) = trace w
         \<and> sessions (run_refops env w p ops) = sessions w
         \<and> fault (run_refops env w p ops) = fault w
     | Some rest \<Rightarrow>
         heap (run_refops env w p ops) p = None
         \<and> (\<forall>q. q \<noteq> p \<longrightarrow> heap (run_refops env w p ops) q = heap w q)
         \<and> trace (run_refops env w p ops) =
             trace w
             @ (if msg_alloc env \<and> args_appended env
                then [G_dbus_send_message (conn_system s) ''org.bluez'' (adapter s)
                        ''org.bluez.Adapter'' ''ReleaseSession'']
                else [])
             @ session_free_events p s
         \<and> sessions (run_refops env w p ops) = remove1 p (sessions w)
         \<and> fault (run_refops env w p ops) = (fault w \<or> rest \<noteq> []))"
proof (induction ops arbitrary: w s)
  case Nil
  then show ?case by simp
next
  case (Cons a ops)
  show ?case
  proof (cases a)
    case Acquire
    let ?s = "s\<lparr>refcount := refcount s + 1\<rparr>"
    let ?w = "put_session p ?s w"
    have h: "heap ?w p = Some ?s" by (simp add: put_session_def)
    have r: "run_refops env w p (a # ops) = run_refops env ?w p ops"
      using Acquire Cons.prems by (simp add: obc_session_ref_live)
    from Cons.IH [OF h] show ?thesis
      unfolding r using Acquire
      by (simp add: put_session_def session_free_events_refcount split: option.splits)
  next
    case Release
    show ?thesis
    proof (cases "refcount s - 1 = 0")
      case True
      let ?w = "w\<lparr>trace := trace w
                        @ (if msg_alloc env \<and> args_appended env
                           then [G_dbus_send_message (conn_system s) ''org.bluez'' (adapter s)
                                   ''org.bluez.Adapter'' ''ReleaseSession'']
                           else [])
                        @ session_free_events p s,
             heap := (heap w)(p := None),
             sessions := remove1 p (sessions w)\<rparr>"
      have r: "run_refops env w p (a # ops) = run_refops env ?w p ops"
        using Release True obc_session_unref_live [OF Cons.prems] by simp
      have d: "heap ?w p = None" by simp
      from run_refops_freed [OF d, of env ops] show ?thesis
        unfolding r using Release True by simp
    next
      case False
      let ?s = "s\<lparr>refcount := refcount s - 1\<rparr>"
      let ?w = "put_session p ?s w"
      have h: "heap ?w p = Some ?s" by (simp add: put_session_def)
      have r: "run_refops env w p (a # ops) = run_refops env ?w p ops"
        using Release False obc_session_unref_live [OF Cons.prems] by simp
      from Cons.IH [OF h] show ?thesis
        unfolding r using Release False
        by (simp add: put_session_def session_free_events_refcount split: option.splits)
    qed
  qed
qed

text \<open>
  Claim C3, as stated, fails where the release message cannot be built:
  \<^verbatim>\<open>send_method_call\<close> returns without sending when the bus library gives no
  message, as it does for a session whose adapter was never resolved, and the
  session is freed all the same. Here the sample session, which has no adapter,
  is released by its two holders: nothing is sent to the bus.
\<close>

theorem release_without_message_counterexample:
  "adapter sample_session = None
   \<and> heap (run_refops no_message_env sample_world 7 [Release, Release]) 7 = None
   \<and> trace (run_refops no_message_env sample_world 7 [Release, Release])
       = [Dbus_pending_call_cancel 10, Dbus_pending_call_unref 10,
          Dbus_connection_unref 1, Dbus_connection_unref 2, G_free_session 7]"
  by (simp add: obc_session_unref_def session_free_def session_free_events_def
      send_method_call_def pending_req_finalize_def sample_world_def world_with_def
      sample_session_def no_message_env_def emit_def put_session_def Let_def)

text \<open>
  Claim C3, amended. Take a live session and any sequence of acquire and release
  calls on it. If no release of the sequence brings the count to zero, nothing is
  sent or freed and the session stays, with the count the calls add up to. If
  one does, the session is freed by that release and by no other call, exactly
  once: the trace grows by the \<^verbatim>\<open>ReleaseSession\<close> message to the adapter (when the
  bus library can build it; nothing is sent otherwise) and then by the calls that
  give back what the session owns, in this order: every pending call cancelled
  unless completed and released, the agent released and freed, the owner watch
  removed, the OBEX engine released, the I/O channel shut down and released, the
  interface unregistered after the driver's \<^verbatim>\<open>remove\<close> hook, the two bus
  connections released, and the memory of the session freed; the session leaves
  the registry. Calls made on the session after that release use freed memory,
  which is undefined in C: here they set \<open>fault\<close> and do nothing else. No other
  session changes.
\<close>

theorem session_freed_exactly_once:
  assumes "heap w p = Some s"
  shows "let w' = run_refops env w p ops in
    (case after_zero (refcount s) ops of
       None \<Rightarrow>
         heap w' p = Some (s\<lparr>refcount := count_after (refcount s) ops\<rparr>)
         \<and> (\<forall>q. q \<noteq> p \<longrightarrow> heap w' q = heap w q)
         \<and> trace w' = trace w
         \<and> sessions w' = sessions w
         \<and> fault w' = fault w
     | Some rest \<Rightarrow>
         heap w' p = None
         \<and> (\<forall>q. q \<noteq> p \<longrightarrow> heap w' q = heap w q)
         \<and> trace w' =
             trace w
             @ (if msg_alloc env \<and> args_appended env
                then [G_dbus_send_message (conn_system s) ''org.bluez'' (adapter s)
                        ''org.bluez.Adapter'' ''ReleaseSession'']
                else [])
             @ concat (map (\<lambda>r. (if \<not> completed r then [Dbus_pending_call_cancel (call r)]
                                  else [])
                                 @ [Dbus_pending_call_unref (call r)]) (pending_calls s))
             @ (case agent s of None \<Rightarrow> [] | Some a \<Rightarrow> [Obc_agent_release a, Obc_agent_free a])
             @ (if watch s \<noteq> 0 then [G_dbus_remove_watch (watch s)] else [])
             @ (case obex s of None \<Rightarrow> [] | Some ob \<Rightarrow> [G_obex_unref ob])
             @ (case io s of
                  None \<Rightarrow> []
                | Some ch \<Rightarrow> [G_io_channel_shutdown ch, G_io_channel_unref ch])
             @ (if path s \<noteq> None
                then (case driver s of
                        None \<Rightarrow> []
                      | Some d \<Rightarrow> if remove d then [Driver_remove p] else [])
                     @ [G_dbus_unregister_interface (path s)]
                else [])
             @ (case conn s of None \<Rightarrow> [] | Some c \<Rightarrow> [Dbus_connection_unref c])
             @ (case conn_system s of None \<Rightarrow> [] | Some c \<Rightarrow> [Dbus_connection_unref c])
             @ [G_free_session p]
         \<and> count_list (trace w') (G_free_session p) = count_list (trace w) (G_free_session p) + 1
         \<and> sessions w' = remove1 p (sessions w)
         \<and> fault w' = (fault w \<or> rest \<noteq> []))"
proof (cases "after_zero (refcount s) ops")
  case None
  with run_refops_live [OF assms, where ops = ops and env = env] show ?thesis by (simp add: Let_def)
next
  case (Some rest)
  with run_refops_live [OF assms, where ops = ops and env = env]
  have r: "heap (run_refops env w p ops) p = None"
    "\<forall>q. q \<noteq> p \<longrightarrow> heap (run_refops env w p ops) q = heap w q"
    "trace (run_refops env w p ops) =
             trace w
             @ (if msg_alloc env \<and> args_appended env
                then [G_dbus_send_message (conn_system s) ''org.bluez'' (adapter s)
                        ''org.bluez.Adapter'' ''ReleaseSession'']
                else [])
             @ session_free_events p s"
    "sessions (run_refops env w p ops) = remove1 p (sessions w)"
    "fault (run_refops env w p ops) = (fault w \<or> rest \<noteq> [])"
    by simp_all
  have c: "count_list (trace (run_refops env w p ops)) (G_free_session p)
             = count_list (trace w) (G_free_session p) + 1"
    unfolding r(3) by (simp add: count_session_free_events)
  have t: "trace (run_refops env w p ops) =
             trace w
             @ (if msg_alloc env \<and> args_appended env
                then [G_dbus_send_message (conn_system s) ''org.bluez'' (adapter s)
                        ''org.bluez.Adapter'' ''ReleaseSession'']
                else [])
             @ concat (map (\<lambda>r. (if \<not> completed r then [Dbus_pending_call_cancel (call r)]
                                  else [])
                                 @ [Dbus_pending_call_unref (call r)]) (pending_calls s))
             @ (case agent s of None \<Rightarrow> [] | Some a \<Rightarrow> [Obc_agent_release a, Obc_agent_free a])
             @ (if watch s \<noteq> 0 then [G_dbus_remove_watch (watch s)] else [])
             @ (case obex s of None \<Rightarrow> [] | Some ob \<Rightarrow> [G_obex_unref ob])
             @ (case io s of
                  None \<Rightarrow> []
                | Some ch \<Rightarrow> [G_io_channel_shutdown ch, G_io_channel_unref ch])
             @ (if path s \<noteq> None
                then (case driver s of
                        None \<Rightarrow> []
                      | Some d \<Rightarrow> if remove d then [Driver_remove p] else [])
                     @ [G_dbus_unregister_interface (path s)]
                else [])
             @ (case conn s of None \<Rightarrow> [] | Some c \<Rightarrow> [Dbus_connection_unref c])
             @ (case conn_system s of None \<Rightarrow> [] | Some c \<Rightarrow> [Dbus_connection_unref c])
             @ [G_free_session p]"
    unfolding r(3) session_free_events_calls ..
  show ?thesis
    unfolding Let_def Some option.case
    by (intro conjI) (rule r(1) r(2) t c r(4) r(5))+
qed

theorem session_freed_exactly_once_witness:
  "heap equipped_world 7 = Some equipped_session
   \<and> after_zero (refcount equipped_session) [Acquire, Release, Release, Release, Release]
       = Some [Release]
   \<and> heap (run_refops ok_env equipped_world 7 [Acquire, Release, Release, Release, Release]) 7
       = None
   \<and> trace (run_refops ok_env equipped_world 7 [Acquire, Release, Release, Release, Release])
       = [G_dbus_send_message (Some 2) ''org.bluez'' (Some ''/org/bluez/hci0'')
            ''org.bluez.Adapter'' ''ReleaseSession'',
          Dbus_pending_call_unref 12,
          Dbus_pending_call_cancel 13, Dbus_pending_call_unref 13,
          Obc_agent_release sample_agent, Obc_agent_free sample_agent,
          G_dbus_remove_watch 4, G_obex_unref 3,
          G_io_channel_shutdown 6, G_io_channel_unref 6,
          Driver_remove 7, G_dbus_unregister_interface (Some ''/org/openobex/session0''),
          Dbus_connection_unref 1, Dbus_connection_unref 2, G_free_session 7]
   \<and> sessions (run_refops ok_env equipped_world 7 [Acquire, Release, Release, Release, Release])
       = []
   \<and> fault (run_refops ok_env equipped_world 7 [Acquire, Release, Release, Release, Release])
   \<and> after_zero (refcount equipped_session) [Acquire, Release] = None
   \<and> heap (run_refops ok_env equipped_world 7 [Acquire, Release]) 7 = Some equipped_session
   \<and> trace (run_refops ok_env equipped_world 7 [Acquire, Release]) = []"
proof -
  let ?ops = "[Acquire, Release, Release, Release, Release]"
  have h: "heap equipped_world 7 = Some equipped_session"
    by (simp add: equipped_world_def world_with_def)
  have z: "after_zero (refcount equipped_session) ?ops = Some [Release]"
    by (simp add: equipped_session_def)
  have n: "after_zero (refcount equipped_session) [Acquire, Release] = None"
    by (simp add: equipped_session_def)
  have c: "equipped_session\<lparr>refcount := count_after (refcount equipped_session)
                                            [Acquire, Release]\<rparr> = equipped_session"
    by (simp add: equipped_session_def)
  have w0: "trace equipped_world = []" "sessions equipped_world = [7]"
    "fault equipped_world = False"
    by (simp_all add: equipped_world_def world_with_def)
  note A = session_freed_exactly_once [OF h, of ok_env ?ops, unfolded Let_def z option.case]
  note B = session_freed_exactly_once [OF h, of ok_env "[Acquire, Release]",
      unfolded Let_def n option.case]
  have 1: "heap (run_refops ok_env equipped_world 7 ?ops) 7 = None"
    by (rule A [THEN conjunct1])
  have 2: "trace (run_refops ok_env equipped_world 7 ?ops)
       = [G_dbus_send_message (Some 2) ''org.bluez'' (Some ''/org/bluez/hci0'')
            ''org.bluez.Adapter'' ''ReleaseSession'',
          Dbus_pending_call_unref 12,
          Dbus_pending_call_cancel 13, Dbus_pending_call_unref 13,
          Obc_agent_release sample_agent, Obc_agent_free sample_agent,
          G_dbus_remove_watch 4, G_obex_unref 3,
          G_io_channel_shutdown 6, G_io_channel_unref 6,
          Driver_remove 7, G_dbus_unregister_interface (Some ''/org/openobex/session0''),
          Dbus_connection_unref 1, Dbus_connection_unref 2, G_free_session 7]"
    unfolding A [THEN conjunct2, THEN conjunct2, THEN conjunct1]
    by (simp add: w0 equipped_session_def ok_env_def sample_driver_def)
  have 3: "sessions (run_refops ok_env equipped_world 7 ?ops) = []"
    unfolding A [THEN conjunct2, THEN conjunct2, THEN conjunct2, THEN conjunct2, THEN conjunct1]
    by (simp add: w0)
  have 4: "fault (run_refops ok_env equipped_world 7 ?ops)"
    unfolding A [THEN conjunct2, THEN conjunct2, THEN conjunct2, THEN conjunct2, THEN conjunct2]
    by simp
  have 5: "heap (run_refops ok_env equipped_world 7 [Acquire, Release]) 7 = Some equipped_session"
    using B [THEN conjunct1] c by simp
  have 6: "trace (run_refops ok_env equipped_world 7 [Acquire, Release]) = []"
    using B [THEN conjunct2, THEN conjunct2, THEN conjunct1] w0 by simp
  show ?thesis by (intro conjI) (rule h z 1 2 3 4 n 5 6)+
qed

section \<open>The guards of the session operations\<close>

text \<open>
  Claim C10. On a session without OBEX connection each of get, send, pull and put
  returns \<^verbatim>\<open>-ENOTCONN\<close> and leaves the whole state as it was: no transfer is
  registered, no field of the session changes and nothing is called.
\<close>

theorem not_connected_operations_fail:
  assumes "heap w p = Some s" and "obex s = None"
  shows "obc_session_get new_transfer agent_ret w p fn = (w, - ENOTCONN)
       \<and> obc_session_send new_transfer set_file_ret agent_ret w p = (w, - ENOTCONN)
       \<and> obc_session_pull new_transfer agent_ret w p fn = (w, - ENOTCONN)
       \<and> obc_session_put new_transfer agent_ret w p buf fn = (w, - ENOTCONN)"
  using assms
  by (simp add: obc_session_get_def obc_session_send_def obc_session_pull_def
      obc_session_put_def)

theorem not_connected_operations_fail_witness:
  "heap sample_world 7 = Some sample_session \<and> obex sample_session = None
   \<and> obc_session_get (Some sample_transfer) 0 sample_world 7 (Some (100, 200))
       = (sample_world, - ENOTCONN)
   \<and> obc_session_send (Some sample_transfer) 0 0 sample_world 7 = (sample_world, - ENOTCONN)
   \<and> obc_session_pull (Some sample_transfer) 0 sample_world 7 (Some (100, 200))
       = (sample_world, - ENOTCONN)
   \<and> obc_session_put (Some sample_transfer) 0 sample_world 7 True (Some (100, 200))
       = (sample_world, - ENOTCONN)"
proof -
  have h: "heap sample_world 7 = Some sample_session"
    by (simp add: sample_world_def world_with_def)
  have o: "obex sample_session = None"
    by (simp add: sample_session_def)
  note r = not_connected_operations_fail [OF h o, of "Some sample_transfer" 0 "Some (100, 200)" 0 True]
  show ?thesis
    by (intro conjI) (rule h o r [THEN conjunct1] r [THEN conjunct2, THEN conjunct1]
        r [THEN conjunct2, THEN conjunct2, THEN conjunct1]
        r [THEN conjunct2, THEN conjunct2, THEN conjunct2])+
qed

section \<open>Bring-up: service discovery and transport\<close>

lemma emit_fields [simp]:
  "heap (emit es w) = heap w" "sessions (emit es w) = sessions w"
  "trace (emit es w) = trace w @ es" "fault (emit es w) = fault w"
  by (simp_all add: emit_def)

lemma put_session_fields [simp]:
  "heap (put_session p s w) = (heap w)(p := Some s)" "sessions (put_session p s w) = sessions w"
  "trace (put_session p s w) = trace w" "fault (put_session p s w) = fault w"
  by (simp_all add: put_session_def)

lemma filter_finalize:
  "filter is_callback (concat (map pending_req_finalize rs)) = []"
  "filter is_transport_connect (concat (map pending_req_finalize rs)) = []"
  "filter is_discovery (concat (map pending_req_finalize rs)) = []"
  by (induction rs)
     (simp_all add: pending_req_finalize_def is_callback_def is_transport_connect_def
        is_discovery_def)

lemma filter_free_events:
  "filter is_callback (session_free_events p s) = []"
  "filter is_transport_connect (session_free_events p s) = []"
  "filter is_discovery (session_free_events p s) = []"
  by (simp_all add: session_free_events_def session_unregistered_events_def filter_finalize
      is_callback_def is_transport_connect_def is_discovery_def split: option.splits)

lemma filter_release_message:
  "filter is_callback (fst (send_method_call env c d pth i m None a)) = []"
  "filter is_transport_connect (fst (send_method_call env c d pth i m None a)) = []"
  "filter is_discovery (fst (send_method_call env c d pth i m None a)) = []"
  by (simp_all add: send_method_call_def is_callback_def is_transport_connect_def
      is_discovery_def)

lemma unref_trace:
  "trace (obc_session_unref env w p) =
     trace w @ (case heap w p of
                  None \<Rightarrow> []
                | Some s \<Rightarrow>
                    if refcount s - 1 \<noteq> 0 then []
                    else fst (send_method_call env (conn_system s) BT_BUS_NAME (adapter s)
                                BT_ADAPTER_IFACE ''ReleaseSession'' None None)
                         @ session_free_events p s)"
  by (simp add: obc_session_unref_def Let_def session_free_def
      session_free_events_def session_unregistered_events_def split: option.splits)

lemma unref_filter:
  "filter is_callback (trace (obc_session_unref env w p)) = filter is_callback (trace w)"
  "filter is_transport_connect (trace (obc_session_unref env w p))
     = filter is_transport_connect (trace w)"
  "filter is_discovery (trace (obc_session_unref env w p)) = filter is_discovery (trace w)"
  by (simp_all add: unref_trace filter_free_events filter_release_message split: option.splits)

lemma scan_records_none:
  "\<forall>x\<in>set records. \<not> has_rfcomm_channel x \<Longrightarrow> scan_records records a b c = 0"
proof (induction records a b c rule: scan_records.induct)
  case (1 scanned bytesleft sz)
  then show ?case by simp
next
  case (2 recsize rest scanned bytesleft sz)
  then show ?case by simp
next
  case (3 r recsize rest scanned bytesleft sz)
  from "3.prems" have n: "\<not> has_rfcomm_channel (Some r, recsize)" by simp
  then have ch: "\<not> (case proto_port r of None \<Rightarrow> - 1 | Some port \<Rightarrow> port) > 0"
    by (simp add: has_rfcomm_channel_def split: option.splits)
  from "3.prems" have rest: "\<forall>x\<in>set rest. \<not> has_rfcomm_channel x" by simp
  show ?case
  proof (cases "recsize = 0")
    case True
    then show ?thesis by simp
  next
    case False
    with ch "3.IH" [OF False refl _ refl refl _ rest] show ?thesis
      by (simp add: Let_def)
  qed
qed

lemma discovery_failed_filter:
  assumes "heap w (cb_session cb) = Some s"
  shows "filter is_callback (trace (discovery_failed env w cb))
           = filter is_callback (trace w) @ [callback_func cb (Some service_record_error)]"
    and "filter is_transport_connect (trace (discovery_failed env w cb))
           = filter is_transport_connect (trace w)"
  using assms
  by (simp_all add: discovery_failed_def Let_def unref_filter callback_func_def
      is_callback_def is_transport_connect_def split: option.splits)

text \<open>
  Claim C7. When no record of the search response has an RFCOMM channel, the
  connect callback is called, once, with the error \<^verbatim>\<open>Unable to find service record\<close>,
  and no RFCOMM connect is attempted.
\<close>

theorem no_service_record_no_connect:
  assumes "heap w (cb_session cb) = Some s"
    and "\<forall>x\<in>set records. \<not> has_rfcomm_channel x"
  shows "filter is_callback
           (trace (search_callback env bt_io scanned0 seqlen records w pdu_type status sz cb))
         = filter is_callback (trace w)
           @ [Callback_func (cb_func cb) (cb_session cb)
                (Some \<lparr>domain = OBEX_IO_ERROR, code = - EIO,
                       message = ''Unable to find service record''\<rparr>) (cb_data cb)]
       \<and> filter is_transport_connect
           (trace (search_callback env bt_io scanned0 seqlen records w pdu_type status sz cb))
         = filter is_transport_connect (trace w)"
proof -
  have "search_callback env bt_io scanned0 seqlen records w pdu_type status sz cb
          = discovery_failed env w cb"
    using assms(1) scan_records_none [OF assms(2)]
    by (simp add: search_callback_def)
  with discovery_failed_filter [OF assms(1), of env] show ?thesis
    by (simp add: callback_func_def service_record_error_def)
qed

theorem no_service_record_no_connect_witness:
  "heap (world_with (sample_session\<lparr>io := Some 5\<rparr>)) (cb_session sample_callback)
     = Some (sample_session\<lparr>io := Some 5\<rparr>)
   \<and> filter has_rfcomm_channel
        [(Some \<lparr>proto_port = Some 0\<rparr>, 12), (Some \<lparr>proto_port = None\<rparr>, 8)] = []
   \<and> filter is_callback
        (trace (search_callback ok_env (Some 6) 2 20
                  [(Some \<lparr>proto_port = Some 0\<rparr>, 12), (Some \<lparr>proto_port = None\<rparr>, 8)]
                  (world_with (sample_session\<lparr>io := Some 5\<rparr>)) 0x07 0 22 sample_callback))
      = [Callback_func 100 7
           (Some \<lparr>domain = OBEX_IO_ERROR, code = - EIO,
                  message = ''Unable to find service record''\<rparr>) 200]
   \<and> filter is_transport_connect
        (trace (search_callback ok_env (Some 6) 2 20
                  [(Some \<lparr>proto_port = Some 0\<rparr>, 12), (Some \<lparr>proto_port = None\<rparr>, 8)]
                  (world_with (sample_session\<lparr>io := Some 5\<rparr>)) 0x07 0 22 sample_callback))
      = []"
proof -
  let ?w = "world_with (sample_session\<lparr>io := Some 5\<rparr>)"
  let ?rs = "[(Some \<lparr>proto_port = Some 0\<rparr>, 12), (Some \<lparr>proto_port = None\<rparr>, 8)]
               :: (sdp_record option \<times> int) list"
  have h: "heap ?w (cb_session sample_callback) = Some (sample_session\<lparr>io := Some 5\<rparr>)"
    by (simp add: world_with_def sample_callback_def)
  have r: "\<forall>x\<in>set ?rs. \<not> has_rfcomm_channel x"
    by (simp add: has_rfcomm_channel_def)
  have t: "trace ?w = []" by (simp add: world_with_def)
  have r': "filter has_rfcomm_channel ?rs = []"
    by (simp add: has_rfcomm_channel_def)
  from no_service_record_no_connect [OF h r, of ok_env "Some 6" 2 20 "0x07" 0 22] h r'
  show ?thesis by (simp add: t sample_callback_def)
qed

lemma take_pending_request_live:
  assumes "heap w p = Some s" and "find_session_request (pending_calls s) c = Some req"
  shows "take_pending_request w p c =
           emit (pending_req_finalize (req\<lparr>completed := True\<rparr>))
             (put_session p (s\<lparr>pending_calls := remove1 req (pending_calls s)\<rparr>) w)"
  using assms by (simp add: take_pending_request_def)

lemma filter_finalize_one:
  "filter is_callback (pending_req_finalize r) = []"
  "filter is_transport_connect (pending_req_finalize r) = []"
  "filter is_discovery (pending_req_finalize r) = []"
  by (simp_all add: pending_req_finalize_def is_callback_def is_transport_connect_def
      is_discovery_def)

lemma session_connect_trace:
  assumes "heap w (cb_session cb) = Some s"
  shows "trace (fst (session_connect bt_io sdp_conn sdp_io w (cb_session cb) cb)) =
     trace w @
       (if obex s \<noteq> None then [G_idle_add_connection_complete cb]
        else if channel s \<noteq> 0 then [Bt_io_connect (src s) (dst s) (channel s) cb]
        else [Sdp_connect (src s) (dst s)]
             @ (case sdp_conn of
                  None \<Rightarrow> []
                | Some sd \<Rightarrow>
                    (case sdp_io of
                       None \<Rightarrow> [Sdp_close sd]
                     | Some ch \<Rightarrow> [G_io_add_watch ch Service_callback cb])))"
  using assms
  by (auto simp add: session_connect_def rfcomm_connect_def service_connect_def Let_def
      word_gt_0 split: option.splits prod.splits)

lemma reply_failed_filter:
  "filter is_callback (trace (reply_failed env w cb)) = filter is_callback (trace w)"
  "filter is_transport_connect (trace (reply_failed env w cb)) = filter is_transport_connect (trace w)"
  "filter is_discovery (trace (reply_failed env w cb)) = filter is_discovery (trace w)"
  by (simp_all add: reply_failed_def unref_filter is_callback_def is_transport_connect_def
      is_discovery_def)

lemma adapter_reply_granted:
  assumes "heap w (cb_session cb) = Some s"
    and "find_session_request (pending_calls s) c = Some req"
  shows "filter is_discovery
           (trace (adapter_reply env bt_io sdp_conn sdp_io w c (Dbus_return arg) cb))
         = filter is_discovery (trace w)
           @ (if obex s = None \<and> channel s = 0 then [Sdp_connect (src s) (dst s)] else [])"
    and "filter is_transport_connect
           (trace (adapter_reply env bt_io sdp_conn sdp_io w c (Dbus_return arg) cb))
         = filter is_transport_connect (trace w)
           @ (if obex s = None \<and> channel s \<noteq> 0
              then [Bt_io_connect (src s) (dst s) (channel s) cb] else [])"
proof -
  let ?s1 = "s\<lparr>pending_calls := remove1 req (pending_calls s)\<rparr>"
  let ?w1 = "take_pending_request w (cb_session cb) c"
  have w1: "?w1 = emit (pending_req_finalize (req\<lparr>completed := True\<rparr>))
                    (put_session (cb_session cb) ?s1 w)"
    by (rule take_pending_request_live [OF assms])
  have h1: "heap ?w1 (cb_session cb) = Some ?s1" by (simp add: w1)
  have t1: "filter is_discovery (trace ?w1) = filter is_discovery (trace w)"
    "filter is_transport_connect (trace ?w1) = filter is_transport_connect (trace w)"
    by (simp_all add: w1 filter_finalize_one)
  obtain w2 cb' err where sc:
    "session_connect bt_io sdp_conn sdp_io ?w1 (cb_session cb) cb = (w2, cb', err)"
    by (cases "session_connect bt_io sdp_conn sdp_io ?w1 (cb_session cb) cb") auto
  from session_connect_trace [OF h1, of bt_io sdp_conn sdp_io] sc
  have t2: "trace w2 = trace ?w1 @
       (if obex s \<noteq> None then [G_idle_add_connection_complete cb]
        else if channel s \<noteq> 0 then [Bt_io_connect (src s) (dst s) (channel s) cb]
        else [Sdp_connect (src s) (dst s)]
             @ (case sdp_conn of
                  None \<Rightarrow> []
                | Some sd \<Rightarrow>
                    (case sdp_io of
                       None \<Rightarrow> [Sdp_close sd]
                     | Some ch \<Rightarrow> [G_io_add_watch ch Service_callback cb])))"
    by simp
  have d2: "filter is_discovery (trace w2) = filter is_discovery (trace w)
           @ (if obex s = None \<and> channel s = 0 then [Sdp_connect (src s) (dst s)] else [])"
    by (simp add: t2 t1 is_discovery_def split: option.splits)
  have c2: "filter is_transport_connect (trace w2) = filter is_transport_connect (trace w)
           @ (if obex s = None \<and> channel s \<noteq> 0
              then [Bt_io_connect (src s) (dst s) (channel s) cb] else [])"
    by (simp add: t2 t1 is_transport_connect_def split: option.splits)
  have ar: "adapter_reply env bt_io sdp_conn sdp_io w c (Dbus_return arg) cb
              = (if err < 0 then reply_failed env w2 cb' else w2)"
    by (simp add: adapter_reply_def Let_def sc)
  show "filter is_discovery
           (trace (adapter_reply env bt_io sdp_conn sdp_io w c (Dbus_return arg) cb))
         = filter is_discovery (trace w)
           @ (if obex s = None \<and> channel s = 0 then [Sdp_connect (src s) (dst s)] else [])"
    unfolding ar using d2 by (simp add: reply_failed_filter)
  show "filter is_transport_connect
           (trace (adapter_reply env bt_io sdp_conn sdp_io w c (Dbus_return arg) cb))
         = filter is_transport_connect (trace w)
           @ (if obex s = None \<and> channel s \<noteq> 0
              then [Bt_io_connect (src s) (dst s) (channel s) cb] else [])"
    unfolding ar using c2 by (simp add: reply_failed_filter)
qed

text \<open>
  Claim C8, as stated, fails on a session that already has an OBEX connection:
  with the channel known, no transport connect is issued; the completion is
  scheduled instead.
\<close>

theorem known_channel_connected_counterexample:
  "channel (sample_session\<lparr>channel := 5, obex := Some 3\<rparr>) \<noteq> 0
   \<and> trace (adapter_reply ok_env (Some 6) (Some 8) (Some 9)
               (world_with (sample_session\<lparr>channel := 5, obex := Some 3\<rparr>)) 10
               (Dbus_return None) sample_callback)
     = [Dbus_pending_call_unref 10, G_idle_add_connection_complete sample_callback]"
  by (simp add: adapter_reply_def take_pending_request_def session_connect_def world_with_def
      sample_session_def sample_callback_def pending_req_finalize_def emit_def put_session_def)

lemma adapter_reply_connected:
  assumes "heap w (cb_session cb) = Some s"
    and "find_session_request (pending_calls s) c = Some req"
    and "obex s \<noteq> None"
  shows "adapter_reply env bt_io sdp_conn sdp_io w c (Dbus_return arg) cb
         = emit [Dbus_pending_call_unref (call req), G_idle_add_connection_complete cb]
             (put_session (cb_session cb)
                (s\<lparr>pending_calls := remove1 req (pending_calls s)\<rparr>) w)"
proof -
  from assms(3) obtain ob where ob: "obex s = Some ob" by blast
  show ?thesis
    by (simp add: adapter_reply_def Let_def take_pending_request_live [OF assms(1,2)]
        session_connect_def pending_req_finalize_def ob emit_def put_session_def)
qed

lemma adapter_reply_known_channel:
  assumes "heap w (cb_session cb) = Some s"
    and "find_session_request (pending_calls s) c = Some req"
    and "obex s = None" and "channel s \<noteq> 0"
  shows "adapter_reply env (Some ch) sdp_conn sdp_io w c (Dbus_return arg) cb
         = emit [Dbus_pending_call_unref (call req),
                 Bt_io_connect (src s) (dst s) (channel s) cb]
             (put_session (cb_session cb)
                (s\<lparr>pending_calls := remove1 req (pending_calls s), io := Some ch\<rparr>) w)"
  using assms(3,4)
  by (simp add: adapter_reply_def Let_def take_pending_request_live [OF assms(1,2)]
      session_connect_def rfcomm_connect_def pending_req_finalize_def emit_def put_session_def
      word_gt_0 EINVAL_def)

text \<open>
  Claim C8, amended. After admission is granted, a session whose channel is known
  never starts service discovery. If it has no OBEX connection yet, the transport
  connect is issued to that channel: when the connect could be started, the reply
  handler does nothing but release the pending call, issue the connect and store
  its channel object. If the session already has an OBEX connection, no transport
  connect and no discovery is issued: the handler does nothing but release the
  pending call and schedule the completion. Discovery is started exactly when the
  channel is zero and there is no OBEX connection.
\<close>

theorem known_channel_skips_discovery:
  assumes "heap w (cb_session cb) = Some s"
    and "find_session_request (pending_calls s) c = Some req"
  shows "let w' = adapter_reply env bt_io sdp_conn sdp_io w c (Dbus_return arg) cb in
       (channel s \<noteq> 0 \<longrightarrow> filter is_discovery (trace w') = filter is_discovery (trace w))
     \<and> (channel s \<noteq> 0 \<and> obex s = None \<longrightarrow>
          filter is_transport_connect (trace w')
            = filter is_transport_connect (trace w)
              @ [Bt_io_connect (src s) (dst s) (channel s) cb])
     \<and> (obex s \<noteq> None \<longrightarrow>
          filter is_transport_connect (trace w') = filter is_transport_connect (trace w)
          \<and> filter is_discovery (trace w') = filter is_discovery (trace w))
     \<and> (filter is_discovery (trace w') \<noteq> filter is_discovery (trace w)
          \<longleftrightarrow> channel s = 0 \<and> obex s = None)
     \<and> (obex s \<noteq> None \<longrightarrow>
          w' = emit [Dbus_pending_call_unref (call req), G_idle_add_connection_complete cb]
                 (put_session (cb_session cb)
                    (s\<lparr>pending_calls := remove1 req (pending_calls s)\<rparr>) w))
     \<and> (\<forall>ch. channel s \<noteq> 0 \<and> obex s = None \<and> bt_io = Some ch \<longrightarrow>
          w' = emit [Dbus_pending_call_unref (call req),
                     Bt_io_connect (src s) (dst s) (channel s) cb]
                 (put_session (cb_session cb)
                    (s\<lparr>pending_calls := remove1 req (pending_calls s), io := Some ch\<rparr>) w))"
proof -
  have a: "obex s \<noteq> None \<longrightarrow>
           adapter_reply env bt_io sdp_conn sdp_io w c (Dbus_return arg) cb
           = emit [Dbus_pending_call_unref (call req), G_idle_add_connection_complete cb]
               (put_session (cb_session cb)
                  (s\<lparr>pending_calls := remove1 req (pending_calls s)\<rparr>) w)"
    by (intro impI) (rule adapter_reply_connected [OF assms])
  have b: "\<forall>ch. channel s \<noteq> 0 \<and> obex s = None \<and> bt_io = Some ch \<longrightarrow>
           adapter_reply env bt_io sdp_conn sdp_io w c (Dbus_return arg) cb
           = emit [Dbus_pending_call_unref (call req),
                   Bt_io_connect (src s) (dst s) (channel s) cb]
               (put_session (cb_session cb)
                  (s\<lparr>pending_calls := remove1 req (pending_calls s), io := Some ch\<rparr>) w)"
  proof (intro allI impI)
    fix ch assume h: "channel s \<noteq> 0 \<and> obex s = None \<and> bt_io = Some ch"
    then have e: "bt_io = Some ch" by simp
    from h show "adapter_reply env bt_io sdp_conn sdp_io w c (Dbus_return arg) cb
           = emit [Dbus_pending_call_unref (call req),
                   Bt_io_connect (src s) (dst s) (channel s) cb]
               (put_session (cb_session cb)
                  (s\<lparr>pending_calls := remove1 req (pending_calls s), io := Some ch\<rparr>) w)"
      unfolding e by (intro adapter_reply_known_channel [OF assms]) simp_all
  qed
  have f: "(channel s \<noteq> 0 \<longrightarrow>
              filter is_discovery
                (trace (adapter_reply env bt_io sdp_conn sdp_io w c (Dbus_return arg) cb))
              = filter is_discovery (trace w))
     \<and> (channel s \<noteq> 0 \<and> obex s = None \<longrightarrow>
          filter is_transport_connect
            (trace (adapter_reply env bt_io sdp_conn sdp_io w c (Dbus_return arg) cb))
            = filter is_transport_connect (trace w)
              @ [Bt_io_connect (src s) (dst s) (channel s) cb])
     \<and> (obex s \<noteq> None \<longrightarrow>
          filter is_transport_connect
            (trace (adapter_reply env bt_io sdp_conn sdp_io w c (Dbus_return arg) cb))
            = filter is_transport_connect (trace w)
          \<and> filter is_discovery
              (trace (adapter_reply env bt_io sdp_conn sdp_io w c (Dbus_return arg) cb))
            = filter is_discovery (trace w))
     \<and> (filter is_discovery
           (trace (adapter_reply env bt_io sdp_conn sdp_io w c (Dbus_return arg) cb))
           \<noteq> filter is_discovery (trace w)
          \<longleftrightarrow> channel s = 0 \<and> obex s = None)"
    unfolding adapter_reply_granted [OF assms] by simp
  show ?thesis
    unfolding Let_def
    by (rule conjI [OF f [THEN conjunct1] conjI [OF f [THEN conjunct2, THEN conjunct1]
          conjI [OF f [THEN conjunct2, THEN conjunct2, THEN conjunct1]
            conjI [OF f [THEN conjunct2, THEN conjunct2, THEN conjunct2] conjI [OF a b]]]]])
qed

theorem known_channel_skips_discovery_witness:
  "heap (world_with (sample_session\<lparr>channel := 5\<rparr>)) (cb_session sample_callback)
     = Some (sample_session\<lparr>channel := 5\<rparr>)
   \<and> find_session_request (pending_calls (sample_session\<lparr>channel := 5\<rparr>)) 10
       = Some \<lparr>call = 10, completed = False\<rparr>
   \<and> channel (sample_session\<lparr>channel := 5\<rparr>) \<noteq> 0
   \<and> obex (sample_session\<lparr>channel := 5\<rparr>) = None
   \<and> filter is_discovery
        (trace (adapter_reply ok_env (Some 6) (Some 8) (Some 9)
                  (world_with (sample_session\<lparr>channel := 5\<rparr>)) 10 (Dbus_return None)
                  sample_callback)) = []
   \<and> adapter_reply ok_env (Some 6) (Some 8) (Some 9)
        (world_with (sample_session\<lparr>channel := 5\<rparr>)) 10 (Dbus_return None) sample_callback
      = \<lparr>heap = (\<lambda>p. if p = 7
                      then Some (sample_session\<lparr>channel := 5, io := Some 6, pending_calls := []\<rparr>)
                      else None),
         sessions = [],
         trace = [Dbus_pending_call_unref 10,
                  Bt_io_connect BDADDR_ANY [1, 2, 3, 4, 5, 6] 5 sample_callback],
         fault = False\<rparr>
   \<and> adapter_reply ok_env (Some 6) (Some 8) (Some 9)
        (world_with (sample_session\<lparr>channel := 5, obex := Some 3\<rparr>)) 10 (Dbus_return None)
        sample_callback
      = \<lparr>heap = (\<lambda>p. if p = 7
                      then Some (sample_session\<lparr>channel := 5, obex := Some 3,
                                                pending_calls := []\<rparr>)
                      else None),
         sessions = [],
         trace = [Dbus_pending_call_unref 10, G_idle_add_connection_complete sample_callback],
         fault = False\<rparr>"
proof -
  let ?s = "sample_session\<lparr>channel := 5\<rparr>"
  let ?c = "sample_session\<lparr>channel := 5, obex := Some 3\<rparr>"
  let ?r = "\<lparr>call = 10, completed = False\<rparr>"
  have h: "heap (world_with ?s) (cb_session sample_callback) = Some ?s"
    and hc: "heap (world_with ?c) (cb_session sample_callback) = Some ?c"
    by (simp_all add: world_with_def sample_callback_def)
  have f: "find_session_request (pending_calls ?s) 10 = Some ?r"
    and fc: "find_session_request (pending_calls ?c) 10 = Some ?r"
    by (simp_all add: sample_session_def)
  have c: "channel ?s \<noteq> 0" by simp
  have o: "obex ?s = None" by (simp add: sample_session_def)
  have oc: "obex ?c \<noteq> None" by simp
  have t: "trace (world_with ?s) = []" by (simp add: world_with_def)
  note k = known_channel_skips_discovery [OF h f, of ok_env "Some 6" "Some 8" "Some 9" None,
      unfolded Let_def]
  note kc = known_channel_skips_discovery [OF hc fc, of ok_env "Some 6" "Some 8" "Some 9" None,
      unfolded Let_def]
  have 1: "filter is_discovery
        (trace (adapter_reply ok_env (Some 6) (Some 8) (Some 9) (world_with ?s) 10
                  (Dbus_return None) sample_callback)) = []"
    using k [THEN conjunct1, rule_format, OF c] by (simp add: t)
  have cs: "cb_session sample_callback = 7" by (simp add: sample_callback_def)
  have d: "src ?s = BDADDR_ANY" "dst ?s = [1, 2, 3, 4, 5, 6]" "channel ?s = 5"
    by (simp_all add: sample_session_def)
  have s2: "?s\<lparr>pending_calls := remove1 ?r (pending_calls ?s), io := Some 6\<rparr>
              = sample_session\<lparr>channel := 5, io := Some 6, pending_calls := []\<rparr>"
    by (simp add: sample_session_def)
  have s3: "?c\<lparr>pending_calls := remove1 ?r (pending_calls ?c)\<rparr>
              = sample_session\<lparr>channel := 5, obex := Some 3, pending_calls := []\<rparr>"
    by (simp add: sample_session_def)
  have v2: "emit [Dbus_pending_call_unref (call ?r),
                  Bt_io_connect (src ?s) (dst ?s) (channel ?s) sample_callback]
              (put_session (cb_session sample_callback)
                 (?s\<lparr>pending_calls := remove1 ?r (pending_calls ?s), io := Some 6\<rparr>)
                 (world_with ?s))
      = \<lparr>heap = (\<lambda>p. if p = 7
                      then Some (sample_session\<lparr>channel := 5, io := Some 6, pending_calls := []\<rparr>)
                      else None),
         sessions = [],
         trace = [Dbus_pending_call_unref 10,
                  Bt_io_connect BDADDR_ANY [1, 2, 3, 4, 5, 6] 5 sample_callback],
         fault = False\<rparr>"
    unfolding cs s2 d
    by (simp add: emit_def put_session_def world_with_def fun_eq_iff)
  have v3: "emit [Dbus_pending_call_unref (call ?r), G_idle_add_connection_complete sample_callback]
              (put_session (cb_session sample_callback)
                 (?c\<lparr>pending_calls := remove1 ?r (pending_calls ?c)\<rparr>) (world_with ?c))
      = \<lparr>heap = (\<lambda>p. if p = 7
                      then Some (sample_session\<lparr>channel := 5, obex := Some 3,
                                                pending_calls := []\<rparr>)
                      else None),
         sessions = [],
         trace = [Dbus_pending_call_unref 10, G_idle_add_connection_complete sample_callback],
         fault = False\<rparr>"
    unfolding cs s3
    by (simp add: emit_def put_session_def world_with_def fun_eq_iff)
  note k2 = k [THEN conjunct2, THEN conjunct2, THEN conjunct2, THEN conjunct2, THEN conjunct2,
      rule_format, OF conjI [OF c conjI [OF o refl]]]
  note k3 = kc [THEN conjunct2, THEN conjunct2, THEN conjunct2, THEN conjunct2, THEN conjunct1,
      rule_format, OF oc]
  note 2 = trans [OF k2 v2]
  note 3 = trans [OF k3 v3]
  show ?thesis by (intro conjI) (rule h f c o 1 2 3)+
qed

section \<open>Transfer completion\<close>

lemma emit_nothing [simp]: "emit [] w = w"
  by (simp add: emit_def)

lemma emit_emit [simp]: "emit es' (emit es w) = emit (es @ es') w"
  by (simp add: emit_def)

lemma put_session_emit: "put_session p s (emit es w) = emit es (put_session p s w)"
  by (simp add: emit_def put_session_def)

lemma put_session_twice [simp]: "put_session p s' (put_session p s w) = put_session p s' w"
  by (simp add: put_session_def)

lemma agent_notify_live:
  "heap w p = Some s \<Longrightarrow> agent_notify w p t ev = emit (agent_events s t ev) w"
  by (simp add: agent_notify_def agent_events_def split: option.splits)

lemma session_request_world:
  "fst (session_request agent_ret w p cb t) =
     (case heap w p of
        None \<Rightarrow> w\<lparr>fault := True\<rparr>
      | Some s \<Rightarrow> emit (admission_events s p cb t) w)"
  by (simp add: session_request_def admission_events_def Let_def split: option.splits)

lemma terminate_with_callback:
  "heap w p = Some s \<Longrightarrow> callback s = Some c \<Longrightarrow>
     session_terminate_transfer env agent_ret w p t gerr
       = emit [Callback_func (func c) p gerr (data c)] w"
  by (simp add: session_terminate_transfer_def)

lemma terminate_without_callback:
  assumes "heap w p = Some s" and "callback s = None" and "refcount s \<noteq> 0"
  shows "session_terminate_transfer env agent_ret w p t gerr
       = emit ([Obc_transfer_unregister t]
               @ (case remove1 t (pending s) of
                    [] \<Rightarrow> []
                  | next_transfer # rest \<Rightarrow>
                      admission_events s p Session_prepare_put next_transfer))
           (put_session p (s\<lparr>pending := remove1 t (pending s)\<rparr>) w)"
proof -
  let ?s1 = "s\<lparr>refcount := refcount s + 1\<rparr>"
  let ?s2 = "?s1\<lparr>pending := remove1 t (pending s)\<rparr>"
  let ?w2 = "emit [Obc_transfer_unregister t] (put_session p ?s2 w)"
  have w1: "obc_session_ref w p = put_session p ?s1 w"
    using assms(1) by (simp add: obc_session_ref_def)
  have w2: "obc_transfer_unregister (put_session p ?s1 w) p t = ?w2"
    by (simp add: obc_transfer_unregister_def obc_session_remove_transfer_def put_session_emit)
  have h2: "heap ?w2 p = Some ?s2" by simp
  let ?es = "(case remove1 t (pending s) of
               [] \<Rightarrow> []
             | next_transfer # rest \<Rightarrow> admission_events s p Session_prepare_put next_transfer)"
  have w3: "(case pending ?s2 of
               [] \<Rightarrow> ?w2
             | next_transfer # rest \<Rightarrow>
                 fst (session_request agent_ret ?w2 p Session_prepare_put next_transfer))
            = emit ?es ?w2"
    by (simp add: session_request_world admission_events_def split: list.splits)
  have h3: "heap (emit ?es ?w2) p = Some ?s2" by simp
  have u: "obc_session_unref env (emit ?es ?w2) p
             = put_session p (s\<lparr>pending := remove1 t (pending s)\<rparr>) (emit ?es ?w2)"
    using assms(3) by (simp add: obc_session_unref_def h3 Let_def)
  have d: "session_terminate_transfer env agent_ret w p t gerr
             = obc_session_unref env
                 (case heap ?w2 p of
                    None \<Rightarrow> ?w2\<lparr>fault := True\<rparr>
                  | Some s2 \<Rightarrow>
                      (case pending s2 of
                         [] \<Rightarrow> ?w2
                       | next_transfer # rest \<Rightarrow>
                           fst (session_request agent_ret ?w2 p Session_prepare_put
                                  next_transfer))) p"
    unfolding session_terminate_transfer_def Let_def
    by (simp only: assms(1,2) option.case w1 w2)
  have "session_terminate_transfer env agent_ret w p t gerr
          = put_session p (s\<lparr>pending := remove1 t (pending s)\<rparr>) (emit ?es ?w2)"
    unfolding d by (simp only: h2 option.case w3 u)
  then show ?thesis by (simp add: put_session_emit)
qed

text \<open>
  Claim C5, as stated, fails on a session with a session callback: when the
  progress reaches the size of the transfer the callback is called and the
  session does nothing more. The transfer stays in the queue and the admission
  cycle of the transfer behind it is not started.
\<close>

theorem progress_with_callback_counterexample:
  "transfer_size sample_transfer = 4096
   \<and> pending queued_session_callback = [sample_transfer, sample_transfer2]
   \<and> session_notify_progress ok_env 0 (world_with queued_session_callback) 7 sample_transfer 4096
       = (world_with queued_session_callback)\<lparr>trace := [Callback_func 100 7 None 200]\<rparr>"
  by (simp add: session_notify_progress_def session_notify_complete_def agent_notify_def
      session_terminate_transfer_def world_with_def queued_session_callback_def
      sample_session_def sample_transfer_def emit_def)

text \<open>
  Claim C5, amended. When a progress notification reports as many bytes as the
  size of the transfer, the agent (if there is one and the transfer has a path)
  is told of the progress and of the completion. Then, on a session without
  session callback, the transfer is unregistered and leaves the queue, and if
  the queue is not empty then, the admission cycle of its head is started; on a
  session with a session callback, that callback is called without error and
  the session does nothing else.
\<close>

theorem progress_at_full_size_completes:
  assumes "heap w p = Some s" and "transferred = transfer_size t" and "refcount s \<noteq> 0"
  shows "(callback s = None \<longrightarrow>
            session_notify_progress env agent_ret w p t transferred
            = emit (agent_events s t (\<lambda>a pth. Obc_agent_notify_progress a pth transferred)
                    @ agent_events s t Obc_agent_notify_complete
                    @ [Obc_transfer_unregister t]
                    @ (case remove1 t (pending s) of
                         [] \<Rightarrow> []
                       | next_transfer # rest \<Rightarrow>
                           admission_events s p Session_prepare_put next_transfer))
                (put_session p (s\<lparr>pending := remove1 t (pending s)\<rparr>) w))
       \<and> (\<forall>c. callback s = Some c \<longrightarrow>
            session_notify_progress env agent_ret w p t transferred
            = emit (agent_events s t (\<lambda>a pth. Obc_agent_notify_progress a pth transferred)
                    @ agent_events s t Obc_agent_notify_complete
                    @ [Callback_func (func c) p None (data c)]) w)"
proof -
  let ?w1 = "emit (agent_events s t (\<lambda>a pth. Obc_agent_notify_progress a pth transferred)) w"
  let ?w2 = "emit (agent_events s t Obc_agent_notify_complete) ?w1"
  have h1: "heap ?w1 p = Some s" and h2: "heap ?w2 p = Some s"
    using assms(1) by simp_all
  have n: "session_notify_progress env agent_ret w p t transferred
             = session_terminate_transfer env agent_ret ?w2 p t None"
    using assms(1,2)
    by (simp add: session_notify_progress_def session_notify_complete_def Let_def
        agent_notify_live)
  show ?thesis
  proof (intro conjI allI impI)
    assume c: "callback s = None"
    show "session_notify_progress env agent_ret w p t transferred
            = emit (agent_events s t (\<lambda>a pth. Obc_agent_notify_progress a pth transferred)
                    @ agent_events s t Obc_agent_notify_complete
                    @ [Obc_transfer_unregister t]
                    @ (case remove1 t (pending s) of
                         [] \<Rightarrow> []
                       | next_transfer # rest \<Rightarrow>
                           admission_events s p Session_prepare_put next_transfer))
                (put_session p (s\<lparr>pending := remove1 t (pending s)\<rparr>) w)"
      unfolding n terminate_without_callback [OF h2 c assms(3)]
      by (simp add: put_session_emit)
  next
    fix c assume c: "callback s = Some c"
    show "session_notify_progress env agent_ret w p t transferred
            = emit (agent_events s t (\<lambda>a pth. Obc_agent_notify_progress a pth transferred)
                    @ agent_events s t Obc_agent_notify_complete
                    @ [Callback_func (func c) p None (data c)]) w"
      unfolding n terminate_with_callback [OF h2 c]
      by simp
  qed
qed

theorem progress_at_full_size_completes_witness:
  "heap (world_with queued_session_agent) 7 = Some queued_session_agent
   \<and> 4096 = transfer_size sample_transfer
   \<and> refcount queued_session_agent \<noteq> 0
   \<and> callback queued_session_agent = None
   \<and> session_notify_progress ok_env 0 (world_with queued_session_agent) 7 sample_transfer 4096
      = \<lparr>heap = (\<lambda>p. if p = 7 then Some (queued_session_agent\<lparr>pending := [sample_transfer2]\<rparr>)
                       else None),
         sessions = [],
         trace = [Obc_agent_notify_progress sample_agent ''/org/openobex/transfer1'' 4096,
                  Obc_agent_notify_complete sample_agent ''/org/openobex/transfer1'',
                  Obc_transfer_unregister sample_transfer,
                  Obc_agent_request sample_agent ''/org/openobex/transfer2''
                    Session_prepare_put 7 sample_transfer2],
         fault = False\<rparr>"
proof -
  let ?s = queued_session_agent
  have h: "heap (world_with ?s) 7 = Some ?s" by (simp add: world_with_def)
  have e: "4096 = transfer_size sample_transfer" by (simp add: sample_transfer_def)
  have r: "refcount ?s \<noteq> 0" by (simp add: queued_session_agent_def sample_session_def)
  have c: "callback ?s = None" by (simp add: queued_session_agent_def sample_session_def)
  have ne: "sample_transfer \<noteq> sample_transfer2"
    by (simp add: sample_transfer_def sample_transfer2_def)
  note k = progress_at_full_size_completes [OF h e r, of ok_env 0, THEN conjunct1, rule_format, OF c]
  have v: "emit (agent_events ?s sample_transfer (\<lambda>a pth. Obc_agent_notify_progress a pth 4096)
                    @ agent_events ?s sample_transfer Obc_agent_notify_complete
                    @ [Obc_transfer_unregister sample_transfer]
                    @ (case remove1 sample_transfer (pending ?s) of
                         [] \<Rightarrow> []
                       | next_transfer # rest \<Rightarrow>
                           admission_events ?s 7 Session_prepare_put next_transfer))
                (put_session 7 (?s\<lparr>pending := remove1 sample_transfer (pending ?s)\<rparr>)
                   (world_with ?s))
      = \<lparr>heap = (\<lambda>p. if p = 7 then Some (?s\<lparr>pending := [sample_transfer2]\<rparr>) else None),
         sessions = [],
         trace = [Obc_agent_notify_progress sample_agent ''/org/openobex/transfer1'' 4096,
                  Obc_agent_notify_complete sample_agent ''/org/openobex/transfer1'',
                  Obc_transfer_unregister sample_transfer,
                  Obc_agent_request sample_agent ''/org/openobex/transfer2''
                    Session_prepare_put 7 sample_transfer2],
         fault = False\<rparr>"
    using ne
    by (simp add: emit_def put_session_def world_with_def agent_events_def admission_events_def
        queued_session_agent_def fun_eq_iff)
       (simp add: sample_transfer_def sample_transfer2_def)
  show ?thesis by (intro conjI) (rule h e r c trans [OF k v])+
qed

section \<open>Session reuse\<close>


lemma obc_session_ref_twice:
  "heap w p = Some s \<Longrightarrow>
     obc_session_ref (obc_session_ref w p) p = put_session p (s\<lparr>refcount := refcount s + 2\<rparr>) w"
  by (simp add: obc_session_ref_def add.commute)











section \<open>The registry during bring-up\<close>

lemma session_free_sessions: "set (sessions (session_free w p)) \<subseteq> set (sessions w)"
  using set_remove1_subset [of p "sessions w"]
  by (simp add: session_free_def split: option.splits)

lemma unref_sessions: "set (sessions (obc_session_unref env w p)) \<subseteq> set (sessions w)"
  using set_remove1_subset [of p "sessions w"]
  by (simp add: obc_session_unref_def Let_def session_free_def split: option.splits)

lemma ref_sessions [simp]: "sessions (obc_session_ref w p) = sessions w"
  by (simp add: obc_session_ref_def split: option.splits)

lemma rfcomm_callback_done_sessions:
  "set (sessions (rfcomm_callback_done env w err cb)) \<subseteq> set (sessions w)"
  using unref_sessions [of env "emit [callback_func cb err] w" "cb_session cb"]
  by (simp add: rfcomm_callback_done_def)

lemma discovery_failed_sessions:
  "set (sessions (discovery_failed env w cb)) \<subseteq> set (sessions w)"
proof (cases "heap w (cb_session cb)")
  case None
  then show ?thesis by (simp add: discovery_failed_def)
next
  case (Some s)
  let ?w1 = "put_session (cb_session cb) (s\<lparr>io := None\<rparr>)
               (emit ((case io s of
                         None \<Rightarrow> []
                       | Some ch \<Rightarrow> [G_io_channel_shutdown ch, G_io_channel_unref ch])
                      @ [callback_func cb (Some service_record_error)]) w)"
  from unref_sessions [of env ?w1 "cb_session cb"] Some show ?thesis
    by (simp add: discovery_failed_def Let_def)
qed

lemma reply_failed_sessions: "set (sessions (reply_failed env w cb)) \<subseteq> set (sessions w)"
  using unref_sessions [of env w "cb_session cb"] by (simp add: reply_failed_def)

lemma take_pending_request_sessions [simp]:
  "sessions (take_pending_request w p c) = sessions w"
  by (simp add: take_pending_request_def split: option.splits)

lemma session_connect_sessions [simp]:
  "sessions (fst (session_connect bt_io sdp_conn sdp_io w p cb)) = sessions w"
  by (simp add: session_connect_def rfcomm_connect_def service_connect_def Let_def
      split: option.splits prod.splits)

lemma connect_cb_sessions: "set (sessions (connect_cb env w err rsp_code cb)) \<subseteq> set (sessions w)"
proof -
  have "\<And>g. set (sessions (obc_session_unref env (emit [callback_func cb g] w) (cb_session cb)))
          \<subseteq> set (sessions w)"
    using unref_sessions [of env _ "cb_session cb"] by fastforce
  then show ?thesis by (simp add: connect_cb_def Let_def)
qed

lemma connection_complete_sessions:
  "set (sessions (connection_complete env w cb)) \<subseteq> set (sessions w)"
  using unref_sessions [of env "emit [callback_func cb None] w" "cb_session cb"]
  by (simp add: connection_complete_def)

lemma adapter_reply_sessions:
  "set (sessions (adapter_reply env bt_io sdp_conn sdp_io w c reply cb)) \<subseteq> set (sessions w)"
proof (cases reply)
  case (Dbus_error e1 e2)
  with reply_failed_sessions [of env "take_pending_request w (cb_session cb) c" cb]
  show ?thesis by (simp add: adapter_reply_def Let_def)
next
  case (Dbus_return arg)
  let ?w1 = "take_pending_request w (cb_session cb) c"
  obtain w2 cb' err where sc:
    "session_connect bt_io sdp_conn sdp_io ?w1 (cb_session cb) cb = (w2, cb', err)"
    by (cases "session_connect bt_io sdp_conn sdp_io ?w1 (cb_session cb) cb") auto
  from session_connect_sessions [of bt_io sdp_conn sdp_io ?w1 "cb_session cb" cb] sc
  have "sessions w2 = sessions w" by simp
  with reply_failed_sessions [of env w2 cb'] Dbus_return sc show ?thesis
    by (simp add: adapter_reply_def Let_def)
qed

lemma manager_reply_sessions:
  "set (sessions (manager_reply env req_env w c reply cb)) \<subseteq> set (sessions w)"
proof -
  let ?w1 = "take_pending_request w (cb_session cb) c"
  have f: "\<And>w'. sessions w' = sessions w \<Longrightarrow>
             set (sessions (reply_failed env w' cb)) \<subseteq> set (sessions w)"
    using reply_failed_sessions by metis
  show ?thesis
    by (auto simp add: manager_reply_def Let_def f split: dbus_reply.splits option.splits
        prod.splits intro!: f [THEN subsetD])
qed

lemma unref_sessions_mem:
  "x \<in> set (sessions (obc_session_unref env w p)) \<Longrightarrow> x \<in> set (sessions w)"
  using unref_sessions by blast

lemma session_free_sessions_mem:
  "x \<in> set (sessions (session_free w p)) \<Longrightarrow> x \<in> set (sessions w)"
  using session_free_sessions by blast

lemma discovery_failed_sessions_mem:
  "x \<in> set (sessions (discovery_failed env w cb)) \<Longrightarrow> x \<in> set (sessions w)"
  using discovery_failed_sessions by blast

lemma rfcomm_callback_done_sessions_mem:
  "x \<in> set (sessions (rfcomm_callback_done env w err cb)) \<Longrightarrow> x \<in> set (sessions w)"
  using rfcomm_callback_done_sessions by blast

lemma search_callback_sessions:
  "set (sessions (search_callback env bt_io scanned0 seqlen records w pdu_type status sz cb))
     \<subseteq> set (sessions w)"
  by (auto simp add: search_callback_def Let_def rfcomm_connect_def
      split: option.splits prod.splits dest!: discovery_failed_sessions_mem)

lemma service_callback_sessions:
  "set (sessions (service_callback env notify_ret uuid_ret search_ret w io_ch cond cb))
     \<subseteq> set (sessions w)"
  by (auto simp add: service_callback_def Let_def
      split: option.splits prod.splits dest!: discovery_failed_sessions_mem)

lemma set_owner_sessions [simp]:
  "sessions (fst (obc_session_set_owner nw w p name)) = sessions w"
  by (simp add: obc_session_set_owner_def Let_def split: option.splits)

lemma create_proceed_sessions:
  "set (sessions (fst (session_create_proceed cenv w p source own fn ud))) \<subseteq> set (sessions w)"
  by (auto simp add: session_create_proceed_def Let_def
      split: option.splits prod.splits dest!: unref_sessions_mem)

lemma create_proceed_sessions_mem:
  "x \<in> set (sessions (fst (session_create_proceed cenv w p source own fn ud)))
     \<Longrightarrow> x \<in> set (sessions w)"
  using create_proceed_sessions by blast

lemma create_sessions:
  "set (sessions (fst (obc_session_create str2ba cenv w source destination srv chan own fn ud)))
     \<subseteq> set (sessions w)"
  by (auto simp add: obc_session_create_def Let_def
      split: option.splits dest!: create_proceed_sessions_mem session_free_sessions_mem)


lemma rfcomm_callback_not_issued:
  assumes "\<not> (err = None \<and> obex_new \<noteq> None \<and> connect_err = None)"
  shows "set (sessions (rfcomm_callback env obex_new connect_err w err cb)) \<subseteq> set (sessions w)"
  using assms
  by (auto simp add: rfcomm_callback_def Let_def
      split: option.splits dest!: rfcomm_callback_done_sessions_mem)


















lemma take_pending_request_filter:
  "filter is_callback (trace (take_pending_request w p c)) = filter is_callback (trace w)"
  by (simp add: take_pending_request_def filter_finalize_one split: option.splits)

lemma reply_failure_silent:
  "filter is_callback (trace (manager_reply env req_env w c (Dbus_error e1 e2) cb))
     = filter is_callback (trace w)"
  "filter is_callback (trace (manager_reply env req_env w c (Dbus_return None) cb))
     = filter is_callback (trace w)"
  "filter is_callback (trace (adapter_reply env bt_io sdp_conn sdp_io w c (Dbus_error e1 e2) cb))
     = filter is_callback (trace w)"
  by (simp_all add: manager_reply_def adapter_reply_def Let_def reply_failed_filter
      take_pending_request_filter)

text \<open>
  Claim C1 on the code. When the manager replies with an error, or its reply has
  no object path, or the adapter replies to the admission request with an error,
  the handlers finalise the pending call, drop the reference of the callback data
  and free it: the connect callback of the caller is not called. The session stays
  allocated, held by its caller.
\<close>

theorem adapter_failure_callback_not_invoked:
  "trace (manager_reply ok_env ok_env sample_world 10
            (Dbus_error ''org.bluez.Error.NoSuchAdapter'' ''No such adapter'') sample_callback)
     = [Dbus_pending_call_unref 10, G_free_callback sample_callback]
   \<and> trace (manager_reply ok_env ok_env sample_world 10 (Dbus_return None) sample_callback)
     = [Dbus_pending_call_unref 10, G_free_callback sample_callback]
   \<and> trace (adapter_reply ok_env (Some 6) (Some 8) (Some 9) (world_with admission_session) 11
              (Dbus_error ''org.bluez.Error.Failed'' ''Failed'') sample_callback)
     = [Dbus_pending_call_unref 11, G_free_callback sample_callback]
   \<and> heap (manager_reply ok_env ok_env sample_world 10
             (Dbus_error ''org.bluez.Error.NoSuchAdapter'' ''No such adapter'') sample_callback) 7
     = Some (sample_session\<lparr>refcount := 1, pending_calls := []\<rparr>)"
  by (simp add: manager_reply_def adapter_reply_def take_pending_request_def reply_failed_def
      obc_session_unref_def sample_world_def world_with_def sample_session_def
      admission_session_def sample_callback_def pending_req_finalize_def Let_def emit_def
      put_session_def)

section \<open>The queue of a connected session\<close>

lemma queue_inv_at:
  "queue_inv w \<Longrightarrow> heap w p = Some s \<Longrightarrow> pending s = [] \<or> obex s \<noteq> None"
  by (simp add: queue_connected_def)

lemma queue_inv_unref:
  assumes "queue_inv w"
  shows "queue_inv (obc_session_unref env w p)"
proof (cases "heap w p")
  case None
  with assms show ?thesis by (simp add: obc_session_unref_def)
next
  case (Some s)
  from queue_inv_at [OF assms Some] show ?thesis
  proof
    assume "pending s = []"
    with assms Some show ?thesis
      by (auto simp add: obc_session_unref_def Let_def session_free_def queue_connected_def)
  next
    assume "obex s \<noteq> None"
    then obtain ob where "obex s = Some ob" by blast
    with assms Some show ?thesis
      by (auto simp add: obc_session_unref_def Let_def session_free_def queue_connected_def)
  qed
qed

lemma queue_inv_ref:
  assumes "queue_inv w"
  shows "queue_inv (obc_session_ref w p)"
proof (cases "heap w p")
  case None
  with assms show ?thesis by (simp add: obc_session_ref_def)
next
  case (Some s)
  from queue_inv_at [OF assms Some] show ?thesis
  proof
    assume "pending s = []"
    with assms Some show ?thesis
      by (auto simp add: obc_session_ref_def queue_connected_def)
  next
    assume "obex s \<noteq> None"
    then obtain ob where "obex s = Some ob" by blast
    with assms Some show ?thesis
      by (auto simp add: obc_session_ref_def queue_connected_def)
  qed
qed

lemma queue_inv_get:
  assumes "queue_inv w"
  shows "queue_inv (fst (obc_session_get new_transfer agent_ret w p fn))"
proof (cases "heap w p")
  case None
  with assms show ?thesis by (simp add: obc_session_get_def)
next
  case (Some s)
  from queue_inv_at [OF assms Some] show ?thesis
  proof
    assume "pending s = []"
    with assms Some show ?thesis
      by (auto simp add: obc_session_get_def obc_transfer_register_def
        obc_session_add_transfer_def set_session_callback_def session_request_def Let_def
        queue_connected_def split: option.splits prod.splits)
  next
    assume "obex s \<noteq> None"
    then obtain ob where "obex s = Some ob" by blast
    with assms Some show ?thesis
      by (auto simp add: obc_session_get_def obc_transfer_register_def
        obc_session_add_transfer_def set_session_callback_def session_request_def Let_def
        queue_connected_def split: option.splits prod.splits)
  qed
qed

lemma queue_inv_pull:
  assumes "queue_inv w"
  shows "queue_inv (fst (obc_session_pull new_transfer agent_ret w p fn))"
proof (cases "heap w p")
  case None
  with assms show ?thesis by (simp add: obc_session_pull_def)
next
  case (Some s)
  from queue_inv_at [OF assms Some] show ?thesis
  proof
    assume "pending s = []"
    with assms Some show ?thesis
      by (auto simp add: obc_session_pull_def obc_transfer_register_def
        obc_session_add_transfer_def set_session_callback_def session_request_def Let_def
        obc_transfer_unregister_def obc_session_remove_transfer_def
        queue_connected_def split: option.splits prod.splits)
  next
    assume "obex s \<noteq> None"
    then obtain ob where "obex s = Some ob" by blast
    with assms Some show ?thesis
      by (auto simp add: obc_session_pull_def obc_transfer_register_def
        obc_session_add_transfer_def set_session_callback_def session_request_def Let_def
        obc_transfer_unregister_def obc_session_remove_transfer_def
        queue_connected_def split: option.splits prod.splits)
  qed
qed

lemma queue_inv_send:
  assumes "queue_inv w"
  shows "queue_inv (fst (obc_session_send new_transfer set_file_ret agent_ret w p))"
proof (cases "heap w p")
  case None
  with assms show ?thesis by (simp add: obc_session_send_def)
next
  case (Some s)
  from queue_inv_at [OF assms Some] show ?thesis
  proof
    assume "pending s = []"
    with assms Some show ?thesis
      by (auto simp add: obc_session_send_def obc_transfer_register_def
        obc_session_add_transfer_def session_request_def Let_def
        obc_transfer_unregister_def obc_session_remove_transfer_def
        queue_connected_def split: option.splits prod.splits list.splits)
  next
    assume "obex s \<noteq> None"
    then obtain ob where "obex s = Some ob" by blast
    with assms Some show ?thesis
      by (auto simp add: obc_session_send_def obc_transfer_register_def
        obc_session_add_transfer_def session_request_def Let_def
        obc_transfer_unregister_def obc_session_remove_transfer_def
        queue_connected_def split: option.splits prod.splits list.splits)
  qed
qed

lemma queue_inv_put:
  assumes "queue_inv w"
  shows "queue_inv (fst (obc_session_put new_transfer agent_ret w p buf fn))"
proof (cases "heap w p")
  case None
  with assms show ?thesis by (simp add: obc_session_put_def)
next
  case (Some s)
  from queue_inv_at [OF assms Some] show ?thesis
  proof
    assume "pending s = []"
    with assms Some show ?thesis
      by (auto simp add: obc_session_put_def obc_transfer_register_def
        obc_session_add_transfer_def set_session_callback_def session_request_def Let_def
        queue_connected_def split: option.splits prod.splits)
  next
    assume "obex s \<noteq> None"
    then obtain ob where "obex s = Some ob" by blast
    with assms Some show ?thesis
      by (auto simp add: obc_session_put_def obc_transfer_register_def
        obc_session_add_transfer_def set_session_callback_def session_request_def Let_def
        queue_connected_def split: option.splits prod.splits)
  qed
qed

lemma queue_inv_request:
  "queue_inv w \<Longrightarrow> queue_inv (fst (session_request agent_ret w p cb t))"
  by (auto simp add: session_request_def Let_def split: option.splits)

lemma queue_inv_unregister:
  assumes "queue_inv w"
  shows "queue_inv (obc_transfer_unregister w p t)"
proof (cases "heap w p")
  case None
  with assms show ?thesis
    by (simp add: obc_transfer_unregister_def obc_session_remove_transfer_def)
next
  case (Some s)
  from queue_inv_at [OF assms Some] show ?thesis
  proof
    assume "pending s = []"
    with assms Some show ?thesis
      by (auto simp add: obc_transfer_unregister_def obc_session_remove_transfer_def
        queue_connected_def)
  next
    assume "obex s \<noteq> None"
    then obtain ob where "obex s = Some ob" by blast
    with assms Some show ?thesis
      by (auto simp add: obc_transfer_unregister_def obc_session_remove_transfer_def
        queue_connected_def)
  qed
qed

lemma queue_inv_agent_notify:
  "queue_inv w \<Longrightarrow> queue_inv (agent_notify w p t ev)"
  by (auto simp add: agent_notify_def split: option.splits)

lemma queue_inv_terminate:
  assumes "queue_inv w"
  shows "queue_inv (session_terminate_transfer env agent_ret w p t gerr)"
proof (cases "heap w p")
  case None
  with assms show ?thesis by (simp add: session_terminate_transfer_def)
next
  case (Some s)
  show ?thesis
  proof (cases "callback s")
    case (Some c)
    with \<open>heap w p = Some s\<close> assms show ?thesis
      by (simp add: session_terminate_transfer_def)
  next
    case None
    let ?w2 = "obc_transfer_unregister (obc_session_ref w p) p t"
    have i2: "queue_inv ?w2"
      by (rule queue_inv_unregister [OF queue_inv_ref [OF assms]])
    let ?w3 = "(case heap ?w2 p of
                  None \<Rightarrow> ?w2\<lparr>fault := True\<rparr>
                | Some s2 \<Rightarrow>
                    (case pending s2 of
                       [] \<Rightarrow> ?w2
                     | next_transfer # rest \<Rightarrow>
                         fst (session_request agent_ret ?w2 p Session_prepare_put
                                next_transfer)))"
    have i3: "queue_inv ?w3"
      using i2 queue_inv_request [OF i2, of agent_ret p Session_prepare_put]
      by (auto split: option.splits list.splits)
    have "session_terminate_transfer env agent_ret w p t gerr = obc_session_unref env ?w3 p"
      using \<open>heap w p = Some s\<close> None
      unfolding session_terminate_transfer_def Let_def
      by (simp only: option.case)
    with queue_inv_unref [OF i3, of env p] show ?thesis by simp
  qed
qed

lemma queue_inv_transfer_progress:
  assumes "queue_inv w"
  shows "queue_inv (transfer_progress env agent_ret w t transferred err p)"
proof -
  have "\<And>ev. queue_inv (agent_notify w p t ev)"
    by (rule queue_inv_agent_notify [OF assms])
  then have "\<And>ev g. queue_inv (session_terminate_transfer env agent_ret
                                  (agent_notify w p t ev) p t g)"
    by (rule queue_inv_terminate)
  moreover have "\<And>ev ev' g. queue_inv (session_terminate_transfer env agent_ret
                                  (agent_notify (agent_notify w p t ev) p t ev') p t g)"
    by (rule queue_inv_terminate [OF queue_inv_agent_notify [OF queue_inv_agent_notify [OF assms]]])
  ultimately show ?thesis
    using queue_inv_agent_notify [OF assms]
    by (simp add: transfer_progress_def session_notify_progress_def session_notify_error_def
        session_notify_complete_def Let_def split: option.splits)
qed

lemma queue_inv_discovery_failed:
  assumes "queue_inv w"
  shows "queue_inv (discovery_failed env w cb)"
proof (cases "heap w (cb_session cb)")
  case None
  with assms show ?thesis by (simp add: discovery_failed_def)
next
  case (Some s)
  from queue_inv_at [OF assms Some] show ?thesis
  proof
    assume "pending s = []"
    with assms Some show ?thesis
      by (auto simp add: discovery_failed_def Let_def obc_session_unref_def session_free_def
        queue_connected_def)
  next
    assume "obex s \<noteq> None"
    then obtain ob where "obex s = Some ob" by blast
    with assms Some show ?thesis
      by (auto simp add: discovery_failed_def Let_def obc_session_unref_def session_free_def
        queue_connected_def)
  qed
qed

lemma queue_inv_rfcomm_callback:
  assumes "queue_inv w"
  shows "queue_inv (rfcomm_callback env obex_new connect_err w err cb)"
proof (cases "heap w (cb_session cb)")
  case None
  with assms show ?thesis by (simp add: rfcomm_callback_def)
next
  case (Some s)
  from queue_inv_at [OF assms Some] show ?thesis
  proof
    assume "pending s = []"
    with assms Some show ?thesis
      by (auto simp add: rfcomm_callback_def rfcomm_callback_done_def Let_def obc_session_unref_def
        session_free_def queue_connected_def split: option.splits)
  next
    assume "obex s \<noteq> None"
    then obtain ob where "obex s = Some ob" by blast
    with assms Some show ?thesis
      by (auto simp add: rfcomm_callback_def rfcomm_callback_done_def Let_def obc_session_unref_def
        session_free_def queue_connected_def split: option.splits)
  qed
qed

lemma queue_inv_connect_cb:
  assumes "queue_inv w"
  shows "queue_inv (connect_cb env w err rsp_code cb)"
proof -
  have "\<And>g. queue_inv (obc_session_unref env (emit [callback_func cb g] w) (cb_session cb))"
    using assms by (intro queue_inv_unref) simp
  then show ?thesis by (simp add: connect_cb_def Let_def)
qed

lemma queue_inv_connection_complete:
  assumes "queue_inv w"
  shows "queue_inv (connection_complete env w cb)"
proof -
  have "queue_inv (obc_session_unref env (emit [callback_func cb None] w) (cb_session cb))"
    using assms by (intro queue_inv_unref) simp
  then show ?thesis by (simp add: connection_complete_def)
qed

lemma queue_inv_search_callback:
  assumes "queue_inv w"
  shows "queue_inv (search_callback env bt_io scanned0 seqlen records w pdu_type status sz cb)"
proof (cases "heap w (cb_session cb)")
  case None
  with assms show ?thesis by (simp add: search_callback_def)
next
  case (Some s)
  from queue_inv_at [OF assms Some] show ?thesis
  proof
    assume "pending s = []"
    with assms Some show ?thesis
      by (auto simp add: search_callback_def discovery_failed_def rfcomm_connect_def Let_def
        obc_session_unref_def session_free_def queue_connected_def split: option.splits)
  next
    assume "obex s \<noteq> None"
    then obtain ob where "obex s = Some ob" by blast
    with assms Some show ?thesis
      by (auto simp add: search_callback_def discovery_failed_def rfcomm_connect_def Let_def
        obc_session_unref_def session_free_def queue_connected_def split: option.splits)
  qed
qed

lemma queue_inv_service_callback:
  assumes "queue_inv w"
  shows "queue_inv (service_callback env notify_ret uuid_ret search_ret w io_ch cond cb)"
proof (cases "heap w (cb_session cb)")
  case None
  with assms show ?thesis by (simp add: service_callback_def)
next
  case (Some s)
  from queue_inv_at [OF assms Some] show ?thesis
  proof
    assume "pending s = []"
    with assms Some show ?thesis
      by (auto simp add: service_callback_def discovery_failed_def Let_def
        obc_session_unref_def session_free_def queue_connected_def split: option.splits)
  next
    assume "obex s \<noteq> None"
    then obtain ob where "obex s = Some ob" by blast
    with assms Some show ?thesis
      by (auto simp add: service_callback_def discovery_failed_def Let_def
        obc_session_unref_def session_free_def queue_connected_def split: option.splits)
  qed
qed

lemma queue_inv_session_free:
  "queue_inv w \<Longrightarrow> queue_inv (session_free w p)"
  by (auto simp add: session_free_def split: option.splits if_splits)

lemma queue_inv_reply_failed:
  assumes "queue_inv w"
  shows "queue_inv (reply_failed env w cb)"
  using queue_inv_unref [OF assms, of env "cb_session cb"] by (simp add: reply_failed_def)

lemma queue_inv_take_pending_request:
  assumes "queue_inv w"
  shows "queue_inv (take_pending_request w p c)"
proof (cases "heap w p")
  case None
  with assms show ?thesis by (simp add: take_pending_request_def)
next
  case (Some s)
  from queue_inv_at [OF assms Some] show ?thesis
  proof
    assume "pending s = []"
    with assms Some show ?thesis
      by (auto simp add: take_pending_request_def queue_connected_def split: option.splits)
  next
    assume "obex s \<noteq> None"
    then obtain ob where "obex s = Some ob" by blast
    with assms Some show ?thesis
      by (auto simp add: take_pending_request_def queue_connected_def split: option.splits)
  qed
qed

lemma queue_inv_session_connect:
  assumes "queue_inv w"
  shows "queue_inv (fst (session_connect bt_io sdp_conn sdp_io w p cb))"
proof (cases "heap w p")
  case None
  with assms show ?thesis by (simp add: session_connect_def)
next
  case (Some s)
  show ?thesis
  proof (cases "heap w (cb_session cb)")
    case None
    from queue_inv_at [OF assms Some] show ?thesis
    proof
      assume "pending s = []"
      with assms Some None show ?thesis
        by (auto simp add: session_connect_def rfcomm_connect_def service_connect_def Let_def
            queue_connected_def split: option.splits)
    next
      assume "obex s \<noteq> None"
      then obtain ob where "obex s = Some ob" by blast
      with assms Some None show ?thesis
        by (auto simp add: session_connect_def rfcomm_connect_def service_connect_def Let_def
            queue_connected_def split: option.splits)
    qed
  next
    case c: (Some s')
    from queue_inv_at [OF assms c] have c': "pending s' = [] \<or> obex s' \<noteq> None" .
    from queue_inv_at [OF assms Some] show ?thesis
    proof
      assume "pending s = []"
      with assms Some c c' show ?thesis
        by (auto simp add: session_connect_def rfcomm_connect_def service_connect_def Let_def
            queue_connected_def split: option.splits)
    next
      assume "obex s \<noteq> None"
      then obtain ob where "obex s = Some ob" by blast
      with assms Some c c' show ?thesis
        by (auto simp add: session_connect_def rfcomm_connect_def service_connect_def Let_def
            queue_connected_def split: option.splits)
    qed
  qed
qed

lemma queue_inv_adapter_reply:
  assumes "queue_inv w"
  shows "queue_inv (adapter_reply env bt_io sdp_conn sdp_io w c reply cb)"
proof -
  let ?w1 = "take_pending_request w (cb_session cb) c"
  have i1: "queue_inv ?w1" by (rule queue_inv_take_pending_request [OF assms])
  obtain w2 cb' err where sc:
    "session_connect bt_io sdp_conn sdp_io ?w1 (cb_session cb) cb = (w2, cb', err)"
    by (cases "session_connect bt_io sdp_conn sdp_io ?w1 (cb_session cb) cb") auto
  from queue_inv_session_connect [OF i1, of bt_io sdp_conn sdp_io "cb_session cb" cb] sc
  have i2: "queue_inv w2" by simp
  from queue_inv_reply_failed [OF i1, of env cb] queue_inv_reply_failed [OF i2, of env cb'] i2 sc
  show ?thesis
    by (simp add: adapter_reply_def Let_def split: dbus_reply.splits)
qed

lemma queue_inv_manager_reply:
  assumes "queue_inv w"
  shows "queue_inv (manager_reply env req_env w c reply cb)"
proof -
  let ?w1 = "take_pending_request w (cb_session cb) c"
  have i1: "queue_inv ?w1" by (rule queue_inv_take_pending_request [OF assms])
  note f1 = queue_inv_reply_failed [OF i1, of env cb]
  show ?thesis
  proof (cases reply)
    case (Dbus_error e1 e2)
    with f1 show ?thesis by (simp add: manager_reply_def Let_def)
  next
    case (Dbus_return arg)
    show ?thesis
    proof (cases arg)
      case None
      with Dbus_return f1 show ?thesis by (simp add: manager_reply_def Let_def)
    next
      case (Some adapter_path)
      show ?thesis
      proof (cases "heap ?w1 (cb_session cb)")
        case None
        with Dbus_return Some i1 show ?thesis by (simp add: manager_reply_def Let_def)
      next
        case hs: (Some s)
        let ?s1 = "s\<lparr>adapter := Some adapter_path\<rparr>"
        from queue_inv_at [OF i1 hs] have q1: "queue_connected ?s1"
          by (simp add: queue_connected_def)
        obtain es req where sm:
          "send_method_call req_env (conn_system ?s1) BT_BUS_NAME (Some adapter_path)
             BT_ADAPTER_IFACE ''RequestSession'' (Some (Adapter_reply, cb)) None = (es, req)"
          by (cases "send_method_call req_env (conn_system ?s1) BT_BUS_NAME (Some adapter_path)
             BT_ADAPTER_IFACE ''RequestSession'' (Some (Adapter_reply, cb)) None") auto
        let ?w2 = "emit es (put_session (cb_session cb) ?s1 ?w1)"
        have i2: "queue_inv ?w2" using i1 q1 by simp
        have q3: "\<And>r. queue_connected (?s1\<lparr>pending_calls := r # pending_calls ?s1\<rparr>)"
          using q1 by (simp add: queue_connected_def)
        have i3: "\<And>r. queue_inv (put_session (cb_session cb)
                            (?s1\<lparr>pending_calls := r # pending_calls ?s1\<rparr>) ?w2)"
          using i1 q3 by auto
        from queue_inv_reply_failed [OF i2, of env cb] i3 Dbus_return Some hs sm
        show ?thesis
          by (simp add: manager_reply_def Let_def split: option.splits)
      qed
    qed
  qed
qed

lemma queue_inv_set_owner:
  assumes "queue_inv w"
  shows "queue_inv (fst (obc_session_set_owner nw w p name))"
proof (cases "heap w p")
  case None
  with assms show ?thesis by (simp add: obc_session_set_owner_def)
next
  case (Some s)
  from queue_inv_at [OF assms Some] show ?thesis
  proof
    assume "pending s = []"
    with assms Some show ?thesis
      by (auto simp add: obc_session_set_owner_def Let_def queue_connected_def)
  next
    assume "obex s \<noteq> None"
    then obtain ob where "obex s = Some ob" by blast
    with assms Some show ?thesis
      by (auto simp add: obc_session_set_owner_def Let_def queue_connected_def)
  qed
qed

lemma queue_inv_create_proceed:
  assumes "queue_inv w"
  shows "queue_inv (fst (session_create_proceed cenv w p source own fn ud))"
proof (cases "callback_alloc cenv")
  case False
  with queue_inv_unref [OF assms, of "release_env cenv" p] show ?thesis
    by (simp add: session_create_proceed_def)
next
  case True
  let ?w1 = "obc_session_ref w p"
  have i1: "queue_inv ?w1" by (rule queue_inv_ref [OF assms])
  show ?thesis
  proof (cases "heap ?w1 p")
    case None
    with True i1 show ?thesis by (simp add: session_create_proceed_def Let_def)
  next
    case (Some s)
    let ?cb = "\<lparr>cb_session = p, cb_sdp = None, cb_func = fn, cb_data = ud\<rparr>"
    obtain es req where sm:
      "(if source \<noteq> None
        then send_method_call (lookup_env cenv) (conn_system s) BT_BUS_NAME (Some BT_PATH)
               BT_MANAGER_IFACE ''FindAdapter'' (Some (Manager_reply, ?cb)) source
        else send_method_call (lookup_env cenv) (conn_system s) BT_BUS_NAME (Some BT_PATH)
               BT_MANAGER_IFACE ''DefaultAdapter'' (Some (Manager_reply, ?cb)) None) = (es, req)"
      by (cases "(if source \<noteq> None
        then send_method_call (lookup_env cenv) (conn_system s) BT_BUS_NAME (Some BT_PATH)
               BT_MANAGER_IFACE ''FindAdapter'' (Some (Manager_reply, ?cb)) source
        else send_method_call (lookup_env cenv) (conn_system s) BT_BUS_NAME (Some BT_PATH)
               BT_MANAGER_IFACE ''DefaultAdapter'' (Some (Manager_reply, ?cb)) None)") auto
    let ?w2 = "emit es ?w1"
    have i2: "queue_inv ?w2" using i1 by simp
    from queue_inv_at [OF i1 Some]
    have q3: "\<And>r. queue_connected (s\<lparr>pending_calls := r # pending_calls s\<rparr>)"
      by (simp add: queue_connected_def)
    have i3: "\<And>r. queue_inv (put_session p (s\<lparr>pending_calls := r # pending_calls s\<rparr>) ?w2)"
      using i1 q3 by auto
    have i4: "\<And>r name. queue_inv (fst (obc_session_set_owner (owner_watch cenv)
                (put_session p (s\<lparr>pending_calls := r # pending_calls s\<rparr>) ?w2) p name))"
      by (rule queue_inv_set_owner [OF i3])
    have i5: "queue_inv (obc_session_unref (release_env cenv) ?w2 p)"
      by (rule queue_inv_unref [OF i2])
    from True Some sm i3 i4 i5 show ?thesis
      unfolding session_create_proceed_def Let_def
      by (simp split: option.splits)
  qed
qed

lemma queue_inv_create:
  assumes "queue_inv w"
  shows "queue_inv (fst (obc_session_create str2ba cenv w source destination srv chan own fn ud))"
proof -
  have z: "\<And>p s. pending s = [] \<Longrightarrow> queue_inv (put_session p s w)"
    using assms by (simp add: queue_connected_def)
  have f: "\<And>w' p a. queue_inv w' \<Longrightarrow>
             queue_inv (fst (session_create_proceed cenv w' p a own fn ud))"
    by (rule queue_inv_create_proceed)
  have g: "\<And>w' p. queue_inv w' \<Longrightarrow> queue_inv (session_free w' p)"
    by (rule queue_inv_session_free)
  have r: "\<And>p. queue_inv (obc_session_ref w p)" by (rule queue_inv_ref [OF assms])
  show ?thesis
    unfolding obc_session_create_def Let_def
    using assms
    by (auto split: option.splits simp add: zero_session_def
        intro!: f g z r simp del: split_paired_All)
qed

text \<open>
  Claim C4. In every state the steps of the session core lead to, a session
  with a queued transfer has an OBEX connection: this holds where no session is
  allocated, and each of these steps keeps it: creation, the reply handlers, the
  discovery and connect callbacks, the deferred completion, acquire and release,
  get, send, pull and put, and the progress of a transfer. In such a state, put
  on a session whose pending queue is not empty returns \<^verbatim>\<open>-EISCONN\<close> and leaves
  the whole state as it was: the pending queue, the agent and every other field
  of the session; no transfer is registered and nothing is called.
\<close>

theorem put_while_pending_fails:
  assumes "heap w p = Some s" and "queue_inv w" and "pending s \<noteq> []"
  shows "obc_session_put new_transfer agent_ret w p buf fn = (w, - EISCONN)
       \<and> queue_inv \<lparr>heap = (\<lambda>q. None), sessions = [], trace = [], fault = False\<rparr>
       \<and> queue_inv (fst (obc_session_create str2ba cenv w source destination srv chan own fn1 ud))
       \<and> queue_inv (manager_reply env req_env w c reply cb)
       \<and> queue_inv (adapter_reply env bt_io sdp_conn sdp_io w c reply cb)
       \<and> queue_inv (service_callback env notify_ret uuid_ret search_ret w io_ch cond cb)
       \<and> queue_inv (search_callback env bt_io scanned0 seqlen records w pdu_type status sz cb)
       \<and> queue_inv (rfcomm_callback env obex_new connect_err w err cb)
       \<and> queue_inv (connect_cb env w err rsp_code cb)
       \<and> queue_inv (connection_complete env w cb)
       \<and> queue_inv (obc_session_ref w p1)
       \<and> queue_inv (obc_session_unref env w p1)
       \<and> queue_inv (fst (obc_session_get nt ar w p1 fn2))
       \<and> queue_inv (fst (obc_session_send nt set_file_ret ar w p1))
       \<and> queue_inv (fst (obc_session_pull nt ar w p1 fn2))
       \<and> queue_inv (fst (obc_session_put nt ar w p1 buf1 fn2))
       \<and> queue_inv (transfer_progress env ar w t transferred gerr p1)"
proof -
  from queue_inv_at [OF assms(2) assms(1)] assms(3) obtain ob where "obex s = Some ob"
    by auto
  with assms(1,3) have 1: "obc_session_put new_transfer agent_ret w p buf fn = (w, - EISCONN)"
    by (simp add: obc_session_put_def)
  have 2: "queue_inv \<lparr>heap = (\<lambda>q. None), sessions = [], trace = [], fault = False\<rparr>"
    by simp
  note i = assms(2)
  show ?thesis
    by (rule conjI [OF 1 conjI [OF 2 conjI [OF queue_inv_create [OF i]
          conjI [OF queue_inv_manager_reply [OF i] conjI [OF queue_inv_adapter_reply [OF i]
            conjI [OF queue_inv_service_callback [OF i]
              conjI [OF queue_inv_search_callback [OF i]
                conjI [OF queue_inv_rfcomm_callback [OF i] conjI [OF queue_inv_connect_cb [OF i]
                  conjI [OF queue_inv_connection_complete [OF i] conjI [OF queue_inv_ref [OF i]
                    conjI [OF queue_inv_unref [OF i] conjI [OF queue_inv_get [OF i]
                      conjI [OF queue_inv_send [OF i] conjI [OF queue_inv_pull [OF i]
                        conjI [OF queue_inv_put [OF i]
                          queue_inv_transfer_progress [OF i]]]]]]]]]]]]]]]]])
qed

theorem put_while_pending_fails_witness:
  "heap (world_with (sample_session\<lparr>obex := Some 3, pending := [sample_transfer]\<rparr>)) 7
     = Some (sample_session\<lparr>obex := Some 3, pending := [sample_transfer]\<rparr>)
   \<and> queue_connected (sample_session\<lparr>obex := Some 3, pending := [sample_transfer]\<rparr>)
   \<and> pending (sample_session\<lparr>obex := Some 3, pending := [sample_transfer]\<rparr>) \<noteq> []
   \<and> obc_session_put (Some sample_transfer2) 0
        (world_with (sample_session\<lparr>obex := Some 3, pending := [sample_transfer]\<rparr>)) 7 False
        (Some (100, 200))
      = (world_with (sample_session\<lparr>obex := Some 3, pending := [sample_transfer]\<rparr>), - EISCONN)"
proof -
  let ?s = "sample_session\<lparr>obex := Some 3, pending := [sample_transfer]\<rparr>"
  have h: "heap (world_with ?s) 7 = Some ?s" by (simp add: world_with_def)
  have c: "queue_connected ?s" by (simp add: queue_connected_def)
  have i: "queue_inv (world_with ?s)" using c by (simp add: world_with_def)
  have q: "pending ?s \<noteq> []" by simp
  note r = put_while_pending_fails [OF h i q, where new_transfer = "Some sample_transfer2"
      and agent_ret = 0 and buf = False and fn = "Some (100, 200)", THEN conjunct1]
  show ?thesis by (intro conjI) (rule h c q r)+
qed


end
